theory Spec2Isabelle
  imports Complex_Main "HOL-Library.Sublist"
begin

section \<open>JavaScript strings and numbers\<close>

text \<open>
  A JavaScript string is modelled as a \<^typ>\<open>string\<close>: a list of code units, each below 256
  (the Latin-1 range). Numbers that the program only adds and compares are \<^typ>\<open>int\<close>
  (scores) or \<^typ>\<open>real\<close> (pixel sizes and confidences: the decimal literals of the
  source are read as exact decimals). A \<open>TypeError\<close> raised by the runtime is a value.
\<close>

datatype error = TypeError

definition isUpperChar :: "char \<Rightarrow> bool" where
  "isUpperChar c =
     (let n = (of_char c :: nat)
      in (65 \<le> n \<and> n \<le> 90) \<or> (192 \<le> n \<and> n \<le> 222 \<and> n \<noteq> 215))"

definition toLowerChar :: "char \<Rightarrow> char" where
  "toLowerChar c = (if isUpperChar c then char_of ((of_char c :: nat) + 32) else c)"

definition toLowerCase :: "string \<Rightarrow> string" where
  "toLowerCase s = map toLowerChar s"

text \<open>White space and line terminators, as \<open>trim\<close>, \<open>\s\<close> and \<open>parseInt\<close> read them.\<close>

definition isWhiteSpace :: "char \<Rightarrow> bool" where
  "isWhiteSpace c = ((of_char c :: nat) \<in> {9, 10, 11, 12, 13, 32, 160})"

definition trim :: "string \<Rightarrow> string" where
  "trim s = rev (dropWhile isWhiteSpace (rev (dropWhile isWhiteSpace s)))"

fun startsWith :: "string \<Rightarrow> string \<Rightarrow> bool" where
  "startsWith s [] = True"
| "startsWith [] (c # t) = False"
| "startsWith (d # s) (c # t) = (d = c \<and> startsWith s t)"

definition endsWith :: "string \<Rightarrow> string \<Rightarrow> bool" where
  "endsWith s t = startsWith (rev s) (rev t)"

fun str_includes :: "string \<Rightarrow> string \<Rightarrow> bool" where
  "str_includes [] t = (t = [])"
| "str_includes (d # s) t = (startsWith (d # s) t \<or> str_includes s t)"

definition isDigitChar :: "char \<Rightarrow> bool" where
  "isDigitChar c = (let n = (of_char c :: nat) in 48 \<le> n \<and> n \<le> 57)"

definition digitValue :: "char \<Rightarrow> nat" where
  "digitValue c = (of_char c :: nat) - 48"

definition isHexDigitChar :: "char \<Rightarrow> bool" where
  "isHexDigitChar c =
     (let n = (of_char c :: nat)
      in (48 \<le> n \<and> n \<le> 57) \<or> (65 \<le> n \<and> n \<le> 70) \<or> (97 \<le> n \<and> n \<le> 102))"

definition hexDigitValue :: "char \<Rightarrow> nat" where
  "hexDigitValue c =
     (let n = (of_char c :: nat)
      in if n \<le> 57 then n - 48 else if n \<le> 70 then n - 55 else n - 87)"

definition digitsValue :: "nat \<Rightarrow> (char \<Rightarrow> nat) \<Rightarrow> string \<Rightarrow> nat" where
  "digitsValue radix val ds = foldl (\<lambda>acc c. acc * radix + val c) 0 ds"

text \<open>
  \<open>parseInt(s)\<close> with no radix: leading white space, a sign, a \<open>0x\<close> prefix for
  hexadecimal, then the longest run of digits; \<open>None\<close> is \<open>NaN\<close>.
\<close>

definition parseInt :: "string \<Rightarrow> int option" where
  "parseInt str =
     (let s = dropWhile isWhiteSpace str;
          neg = startsWith s ''-'';
          s1 = (if startsWith s ''-'' \<or> startsWith s ''+'' then tl s else s);
          hex = (startsWith s1 ''0x'' \<or> startsWith s1 ''0X'');
          s2 = (if hex then drop 2 s1 else s1);
          z = (if hex then takeWhile isHexDigitChar s2 else takeWhile isDigitChar s2);
          v = (if hex then digitsValue 16 hexDigitValue z else digitsValue 10 digitValue z)
      in if z = [] then None
         else Some (if neg then - int v else int v))"

text \<open>\<open>[...new Set(xs)]\<close>: the first occurrence of each element, in order.\<close>

fun uniqueInOrder :: "'a list \<Rightarrow> 'a list" where
  "uniqueInOrder [] = []"
| "uniqueInOrder (x # xs) = x # filter (\<lambda>y. y \<noteq> x) (uniqueInOrder xs)"


text \<open>The value of an optional text, the empty text when there is none.\<close>

definition the_default :: "'a \<Rightarrow> 'a option \<Rightarrow> 'a" where
  "the_default d x = (case x of None \<Rightarrow> d | Some y \<Rightarrow> y)"


section \<open>Typography analyzer\<close>

record levelConfig =
  minSize :: real
  maxSize :: real
  weights :: "string list"

text \<open>\<open>TEXT_SCALE_MAPPING\<close>, in the order of its keys.\<close>

definition TEXT_SCALE_MAPPING :: "(string \<times> levelConfig) list" where
  "TEXT_SCALE_MAPPING =
    [(''text1'', \<lparr>minSize = 56, maxSize = 64, weights = [''light'', ''regular'', ''medium'']\<rparr>),
     (''text2'', \<lparr>minSize = 40, maxSize = 48, weights = [''light'', ''regular'', ''medium'']\<rparr>),
     (''text3'', \<lparr>minSize = 32, maxSize = 40, weights = [''light'', ''regular'', ''medium'']\<rparr>),
     (''text4'', \<lparr>minSize = 28, maxSize = 32, weights = [''light'', ''regular'', ''medium'']\<rparr>),
     (''text5'', \<lparr>minSize = 24, maxSize = 28, weights = [''light'', ''regular'', ''medium'']\<rparr>),
     (''text6'', \<lparr>minSize = 20, maxSize = 24, weights = [''regular'', ''medium'']\<rparr>),
     (''text7'', \<lparr>minSize = 18, maxSize = 20, weights = [''regular'', ''medium'']\<rparr>),
     (''text8'', \<lparr>minSize = 16, maxSize = 18, weights = [''regular'', ''medium'']\<rparr>),
     (''text9'', \<lparr>minSize = 14, maxSize = 16, weights = [''regular'', ''medium'']\<rparr>),
     (''text10'', \<lparr>minSize = 12, maxSize = 14, weights = [''regular'', ''medium'']\<rparr>)]"

definition WEIGHT_KEYWORDS :: "(string \<times> string list) list" where
  "WEIGHT_KEYWORDS =
    [(''light'', [''light'', ''thin'', ''300'', ''200'', ''100'']),
     (''regular'', [''regular'', ''normal'', ''400'', ''book'']),
     (''medium'', [''medium'', ''500'', ''600'', ''semibold'']),
     (''bold'', [''bold'', ''700'', ''800'', ''900'', ''black''])]"

definition inRange :: "real \<Rightarrow> levelConfig \<Rightarrow> bool" where
  "inRange fontSize config = (fontSize \<ge> minSize config \<and> fontSize \<le> maxSize config)"

text \<open>
  \<open>determineTextLevel\<close>: the first level of the table whose range holds the size, else the
  fallback staircase.
\<close>

definition determineTextLevel :: "real \<Rightarrow> string" where
  "determineTextLevel fontSize =
     (case find (\<lambda>(level, config). inRange fontSize config) TEXT_SCALE_MAPPING of
        Some (level, config) \<Rightarrow> level
      | None \<Rightarrow>
          if fontSize \<ge> 56 then ''text1''
          else if fontSize \<ge> 40 then ''text2''
          else if fontSize \<ge> 32 then ''text3''
          else if fontSize \<ge> 28 then ''text4''
          else if fontSize \<ge> 24 then ''text5''
          else if fontSize \<ge> 20 then ''text6''
          else if fontSize \<ge> 18 then ''text7''
          else if fontSize \<ge> 16 then ''text8''
          else if fontSize \<ge> 14 then ''text9''
          else ''text10'')"

text \<open>
  \<open>determineWeight\<close>: the first weight class one of whose keywords occurs in the lowercased
  weight or in the lowercased style text, else the numeric fallback; a weight that is not a
  number compares false with every threshold and is bold.
\<close>

definition determineWeight :: "string \<Rightarrow> string \<Rightarrow> string" where
  "determineWeight fontWeight cssText =
     (let weightLower = toLowerCase fontWeight
      in case find (\<lambda>(w, keywords).
                 list_ex (\<lambda>keyword. str_includes weightLower keyword
                                   \<or> str_includes (toLowerCase cssText) keyword) keywords)
               WEIGHT_KEYWORDS of
           Some (w, keywords) \<Rightarrow> w
         | None \<Rightarrow>
             (case parseInt fontWeight of
                None \<Rightarrow> ''bold''
              | Some numericWeight \<Rightarrow>
                  if numericWeight \<le> 300 then ''light''
                  else if numericWeight \<le> 400 then ''regular''
                  else if numericWeight \<le> 600 then ''medium''
                  else ''bold''))"

text \<open>
  \<open>calculateTypographyConfidence\<close>. Reading \<open>minSize\<close> of a level that the table does not
  have raises a \<open>TypeError\<close>.
\<close>

definition calculateTypographyConfidence ::
    "real \<Rightarrow> string \<Rightarrow> string \<Rightarrow> string \<Rightarrow> error + real" where
  "calculateTypographyConfidence fontSize fontWeight textLevel weight =
     (case map_of TEXT_SCALE_MAPPING textLevel of
        None \<Rightarrow> Inl TypeError
      | Some levelConfig \<Rightarrow>
          (let confidence = 0.5;
               confidence = (if inRange fontSize levelConfig then confidence + 0.3
                             else confidence);
               confidence = (if weight \<in> set (weights levelConfig) then confidence + 0.2
                             else confidence)
           in Inr (min confidence 1.0)))"

text \<open>\<open>TypographyAnalysis\<close>; its field \<open>size\<close> is \<open>sizePx\<close> here.\<close>

record typographyAnalysis =
  textLevel :: string
  weight :: string
  sizePx :: real
  confidence :: real

text \<open>
  \<open>analyzeTypography\<close> from the point where the font size, the font weight and the texts
  are resolved (the extraction from the style text and the utility classes comes before):
  the level, the weight class and the confidence of the result. The line height and the
  colour are copied to the result unchanged and are left out.
\<close>

definition analyzeTypography ::
    "real \<Rightarrow> string \<Rightarrow> string \<Rightarrow> string \<Rightarrow> error + typographyAnalysis" where
  "analyzeTypography fontSize fontWeight cssText elementHtml =
     (let level = determineTextLevel fontSize;
          w = determineWeight fontWeight (cssText @ elementHtml)
      in case calculateTypographyConfidence fontSize fontWeight level w of
           Inl e \<Rightarrow> Inl e
         | Inr c \<Rightarrow>
             Inr \<lparr>textLevel = level, weight = w, sizePx = fontSize, confidence = c\<rparr>)"

text \<open>
  A size outside every range of the table, and the number of a level (\<open>text1\<close> is 1).
\<close>

definition outsideAllRanges :: "real \<Rightarrow> bool" where
  "outsideAllRanges fontSize =
     (\<not> list_ex (\<lambda>(level, config). inRange fontSize config) TEXT_SCALE_MAPPING)"

definition levelNumber :: "string \<Rightarrow> nat" where
  "levelNumber level =
     Suc (length (takeWhile (\<lambda>k. k \<noteq> level) (map fst TEXT_SCALE_MAPPING)))"

section \<open>Regular expressions\<close>

text \<open>
  The regular expressions of the element extractor, as a datatype, with the matcher of
  the language: backtracking, alternatives from left to right, greedy repetition unless
  marked lazy, the first match at the leftmost position. Every expression of the
  extractor carries the flag \<open>i\<close>: letters are compared without case, and the matcher
  always does so.
\<close>

definition toUpperChar :: "char \<Rightarrow> char" where
  "toUpperChar c =
     (let n = (of_char c :: nat)
      in if (97 \<le> n \<and> n \<le> 122) \<or> (224 \<le> n \<and> n \<le> 254 \<and> n \<noteq> 247)
         then char_of (n - 32) else c)"

definition isWordChar :: "char \<Rightarrow> bool" where
  "isWordChar c =
     (let n = (of_char c :: nat)
      in (48 \<le> n \<and> n \<le> 57) \<or> (65 \<le> n \<and> n \<le> 90) \<or> (97 \<le> n \<and> n \<le> 122)
         \<or> n = 95)"

definition isLineTerminator :: "char \<Rightarrow> bool" where
  "isLineTerminator c = ((of_char c :: nat) \<in> {10, 13})"

text \<open>
  The items of a character class: a character, a range, \<open>\d\<close>, \<open>\w\<close>, \<open>\s\<close>. The
  expressions: a character, \<open>.\<close>, \<open>[\s\S]\<close>, a class, a negated class, the empty expression,
  \<open>\b\<close>, \<open>^\<close>, sequence, alternative, \<open>*\<close>, \<open>*?\<close>, a capturing group with its number, a back
  reference.
\<close>

datatype charItem = Ch char | Rng char char | DigitCls | WordCls | SpaceCls

datatype rx =
    Lit char
  | Dot
  | AnyChar
  | Cls "charItem list"
  | NotCls "charItem list"
  | Eps
  | WordBoundary
  | Bol
  | Seq rx rx
  | Alt rx rx
  | Star rx
  | LazyStar rx
  | Group nat rx
  | Backref nat

definition Plus :: "rx \<Rightarrow> rx" where
  "Plus r = Seq r (Star r)"

definition LazyPlus :: "rx \<Rightarrow> rx" where
  "LazyPlus r = Seq r (LazyStar r)"

definition Opt :: "rx \<Rightarrow> rx" where
  "Opt r = Alt r Eps"

definition Str :: "string \<Rightarrow> rx" where
  "Str s = foldr (\<lambda>c r. Seq (Lit c) r) s Eps"

definition Seqs :: "rx list \<Rightarrow> rx" where
  "Seqs rs = foldr Seq rs Eps"

fun Alts :: "rx list \<Rightarrow> rx" where
  "Alts [] = Eps"
| "Alts [r] = r"
| "Alts (r # rs) = Alt r (Alts rs)"

definition Words :: "string list \<Rightarrow> rx" where
  "Words ws = Alts (map Str ws)"

definition sameLetter :: "char \<Rightarrow> char \<Rightarrow> bool" where
  "sameLetter c d = (toUpperChar c = toUpperChar d)"

definition inRangeChar :: "char \<Rightarrow> char \<Rightarrow> char \<Rightarrow> bool" where
  "inRangeChar lo hi c = ((of_char lo :: nat) \<le> of_char c \<and> (of_char c :: nat) \<le> of_char hi)"

definition itemMatches :: "charItem \<Rightarrow> char \<Rightarrow> bool" where
  "itemMatches i c =
     (case i of
        Ch d \<Rightarrow> sameLetter c d
      | Rng lo hi \<Rightarrow>
          inRangeChar lo hi c \<or> inRangeChar lo hi (toLowerChar c)
          \<or> inRangeChar lo hi (toUpperChar c)
      | DigitCls \<Rightarrow> isDigitChar c
      | WordCls \<Rightarrow> isWordChar c
      | SpaceCls \<Rightarrow> isWhiteSpace c)"

text \<open>
  The state of a match: the character before the position (none at the start of the
  text), the text from the position on, and the captures so far.
\<close>

record matchState =
  msPrev :: "char option"
  msRest :: string
  msCaps :: "(nat \<times> string) list"

definition stepChar :: "(char \<Rightarrow> bool) \<Rightarrow> matchState \<Rightarrow> matchState list" where
  "stepChar p s =
     (case msRest s of
        [] \<Rightarrow> []
      | c # cs \<Rightarrow> if p c then [s\<lparr>msPrev := Some c, msRest := cs\<rparr>] else [])"

fun matchText :: "string \<Rightarrow> matchState \<Rightarrow> matchState list" where
  "matchText [] s = [s]"
| "matchText (d # ds) s = concat (map (matchText ds) (stepChar (\<lambda>c. sameLetter c d) s))"

definition atWordBoundary :: "matchState \<Rightarrow> bool" where
  "atWordBoundary s =
     ((case msPrev s of None \<Rightarrow> False | Some c \<Rightarrow> isWordChar c)
      \<noteq> (case msRest s of [] \<Rightarrow> False | c # cs \<Rightarrow> isWordChar c))"

text \<open>
  \<open>rxm r s\<close>: the states after a match of \<open>r\<close> from the state \<open>s\<close>, in the order in which the
  backtracking matcher tries them. A repetition does not take an iteration that reads
  nothing.
\<close>

function rxm :: "rx \<Rightarrow> matchState \<Rightarrow> matchState list" where
  "rxm (Lit d) s = stepChar (\<lambda>c. sameLetter c d) s"
| "rxm Dot s = stepChar (\<lambda>c. \<not> isLineTerminator c) s"
| "rxm AnyChar s = stepChar (\<lambda>c. True) s"
| "rxm (Cls items) s = stepChar (\<lambda>c. list_ex (\<lambda>i. itemMatches i c) items) s"
| "rxm (NotCls items) s = stepChar (\<lambda>c. \<not> list_ex (\<lambda>i. itemMatches i c) items) s"
| "rxm Eps s = [s]"
| "rxm WordBoundary s = (if atWordBoundary s then [s] else [])"
| "rxm Bol s = (if msPrev s = None then [s] else [])"
| "rxm (Seq a b) s = concat (map (rxm b) (rxm a s))"
| "rxm (Alt a b) s = rxm a s @ rxm b s"
| "rxm (Star a) s =
     concat (map (\<lambda>s'. if length (msRest s') < length (msRest s) then rxm (Star a) s' else [])
               (rxm a s)) @ [s]"
| "rxm (LazyStar a) s =
     s # concat (map (\<lambda>s'. if length (msRest s') < length (msRest s)
                             then rxm (LazyStar a) s' else [])
                  (rxm a s))"
| "rxm (Group n a) s =
     map (\<lambda>s'. s'\<lparr>msCaps := (n, take (length (msRest s) - length (msRest s')) (msRest s))
                               # msCaps s'\<rparr>)
       (rxm a s)"
| "rxm (Backref n) s =
     (case map_of (msCaps s) n of
        None \<Rightarrow> [s]
      | Some t \<Rightarrow> matchText t s)"
  by pat_completeness auto
termination
  by (relation "measure size <*lex*> measure (\<lambda>s. length (msRest s))") auto

text \<open>
  A match: its text and its captures. \<open>matchAt\<close> is the match at one position,
  \<open>execFrom\<close> the successive matches from a position on (\<open>exec\<close> in a loop, or \<open>match\<close> with
  the flag \<open>g\<close>): after a match the search goes on where the match ended, and one character
  further when the match was empty. \<open>rxTest\<close> is \<open>test\<close> on a fresh expression.
\<close>

record rxMatch =
  matched :: string
  groups :: "(nat \<times> string) list"

definition matchAt :: "rx \<Rightarrow> char option \<Rightarrow> string \<Rightarrow> (rxMatch \<times> string) option" where
  "matchAt r p s =
     (case rxm r \<lparr>msPrev = p, msRest = s, msCaps = []\<rparr> of
        [] \<Rightarrow> None
      | s' # _ \<Rightarrow>
          Some (\<lparr>matched = take (length s - length (msRest s')) s, groups = msCaps s'\<rparr>,
                msRest s'))"

function execFrom :: "rx \<Rightarrow> char option \<Rightarrow> string \<Rightarrow> rxMatch list" where
  "execFrom r p s =
     (case matchAt r p s of
        Some (m, s') \<Rightarrow>
          (if length s' < length s
           then m # execFrom r (Some (last (matched m))) s'
           else (case s of [] \<Rightarrow> [m] | c # cs \<Rightarrow> m # execFrom r (Some c) cs))
      | None \<Rightarrow> (case s of [] \<Rightarrow> [] | c # cs \<Rightarrow> execFrom r (Some c) cs))"
  by pat_completeness auto
termination
  by (relation "measure (\<lambda>(r, p, s). length s)") auto

declare execFrom.simps [simp del]

text \<open>
  \<open>replace\<close> with the flag \<open>g\<close>: every match is replaced by what the function gives for
  it, the text between the matches is kept.
\<close>

function replaceFrom :: "rx \<Rightarrow> (rxMatch \<Rightarrow> string) \<Rightarrow> char option \<Rightarrow> string \<Rightarrow> string" where
  "replaceFrom r f p s =
     (case matchAt r p s of
        Some (m, s') \<Rightarrow>
          (if length s' < length s
           then f m @ replaceFrom r f (Some (last (matched m))) s'
           else (case s of [] \<Rightarrow> f m | c # cs \<Rightarrow> f m @ c # replaceFrom r f (Some c) cs))
      | None \<Rightarrow> (case s of [] \<Rightarrow> [] | c # cs \<Rightarrow> c # replaceFrom r f (Some c) cs))"
  by pat_completeness auto
termination
  by (relation "measure (\<lambda>(r, f, p, s). length s)") auto

declare replaceFrom.simps [simp del]

definition replaceAll :: "rx \<Rightarrow> (rxMatch \<Rightarrow> string) \<Rightarrow> string \<Rightarrow> string" where
  "replaceAll r f s = replaceFrom r f None s"

definition execAll :: "rx \<Rightarrow> string \<Rightarrow> rxMatch list" where
  "execAll r s = execFrom r None s"

fun testFrom :: "rx \<Rightarrow> char option \<Rightarrow> string \<Rightarrow> bool" where
  "testFrom r p [] = (rxm r \<lparr>msPrev = p, msRest = [], msCaps = []\<rparr> \<noteq> [])"
| "testFrom r p (c # cs) =
     (rxm r \<lparr>msPrev = p, msRest = c # cs, msCaps = []\<rparr> \<noteq> [] \<or> testFrom r (Some c) cs)"

definition rxTest :: "rx \<Rightarrow> string \<Rightarrow> bool" where
  "rxTest r s = testFrom r None s"

definition matchCount :: "rx \<Rightarrow> string \<Rightarrow> nat" where
  "matchCount r s = length (execAll r s)"

text \<open>\<open>match[n]\<close>: the capture of group \<open>n\<close>, \<open>None\<close> when the group took no part.\<close>

definition capture :: "nat \<Rightarrow> rxMatch \<Rightarrow> string option" where
  "capture n m = map_of (groups m) n"

section \<open>Catalog components and element signals\<close>

text \<open>
  \<open>MisticaComponent\<close> with the fields the analysis reads. The signal records are the
  interfaces of the element extractor; a field that several interfaces share is written
  with the record's name (\<open>ButtonElements.found\<close>). The field \<open>structure\<close> is
  \<open>structure'\<close> here.
\<close>

record MisticaComponent =
  name :: string
  category :: string
  description :: string

record FeedbackElements =
  found :: bool
  type :: string
  hasScreen :: bool
  hasIcon :: bool
  hasActions :: bool
  detectedNames :: "string list"

record DetectedFigmaComponent =
  originalName :: string
  normalizedName :: string
  componentType :: string
  confidenceScore :: real
  variations :: "string list"

record FigmaComponentElements =
  found :: bool
  detectedComponents :: "DetectedFigmaComponent list"

record ButtonElements =
  found :: bool
  count :: nat
  hasActions :: bool
  variants :: "string list"
  positions :: "string list"

record FigmaTextPreset =
  preset :: string
  variant :: string
  originalName :: string
  fontSizeGuess :: "nat option"
  confidenceScore :: real

record TextElements =
  found :: bool
  count :: nat
  hasFormatting :: bool
  hierarchy :: "string list"
  figmaPresets :: "FigmaTextPreset list"

record ContainerElements =
  found :: bool
  count :: nat
  hasLayout :: bool
  hasPadding :: bool
  types :: "string list"

record ListStructure =
  hasIcons :: bool
  hasActions :: bool
  hasSubtitle :: bool
  isNested :: bool

record ListElements =
  found :: bool
  count :: nat
  isRepeated :: bool
  hasNavigation :: bool
  structure' :: ListStructure

record IconElements =
  found :: bool
  count :: nat
  hasInteraction :: bool
  types :: "string list"

record LayoutElements =
  found :: bool
  hasFixedFooter :: bool
  hasFixedHeader :: bool
  hasModal :: bool
  layoutType :: string
  containsButtonInFooter :: bool

record SecurityElements =
  found :: bool
  hasPinField :: bool
  hasCodeInput :: bool
  hasOTPInput :: bool
  securityLevel :: string

record SpacingElements =
  found :: bool
  hasExplicitSpacing :: bool
  spacingTypes :: "string list"
  spacingValues :: "string list"
  spacingPatterns :: "string list"
  detectedUnits :: "string list"
  semanticSpacing :: "string list"

record FormElements =
  found :: bool
  hasValidation :: bool
  fieldTypes :: "string list"
  hasSubmitButton :: bool
  structure' :: string

record InputElements =
  found :: bool
  count :: nat
  types :: "string list"
  hasValidation :: bool

record ImageElements =
  found :: bool
  count :: nat
  isDecorative :: bool

record NavigationElements =
  found :: bool
  hasBackButton :: bool
  hasTitle :: bool
  hasActions :: bool

record UIElements =
  buttons :: ButtonElements
  texts :: TextElements
  containers :: ContainerElements
  lists :: ListElements
  icons :: IconElements
  inputs :: InputElements
  images :: ImageElements
  navigation :: NavigationElements
  layouts :: LayoutElements
  security :: SecurityElements
  forms :: FormElements
  spacing :: SpacingElements
  feedback :: FeedbackElements
  figmaComponents :: FigmaComponentElements

record UIPatterns =
  listPattern :: bool
  cardPattern :: bool
  formPattern :: bool
  navigationPattern :: bool
  modalPattern :: bool
  tablePattern :: bool
  headerPattern :: bool
  footerPattern :: bool

record StructuralAnalysis =
  hasNestedElements :: bool
  layoutType :: string
  repetitiveElements :: bool
  interactionElements :: "string list"
  spacing :: string
  alignment :: string

section \<open>Component mapper\<close>

text \<open>
  The reasons are fixed messages; each is a constructor named after the place that
  gives it.
\<close>

datatype Reason =
    FooterLayoutReason | PinFieldReason
  | ButtonActionsReason | ButtonBasicReason
  | TextFormattingReason | TextContentReason
  | ListIdealReason | ListRepeatedReason | ListContentReason
  | ContainerAlignedReason | ContainerConsistentReason | ContainerMixedReason
  | ContainerVerticalReason | ContainerGridReason | ContainerDefaultReason
  | IconInteractiveReason | IconDecorativeReason
  | InputValidationReason | InputDataReason
  | NavigationBackReason | NavigationActionsReason | NavigationBasicReason
  | ListPatternReason | CardPatternReason | FormPatternReason
  | NavigationPatternReason | ModalPatternReason

record ComponentSuggestion =
  component :: MisticaComponent
  reason :: Reason
  score :: int

record ElementMapping =
  detected :: bool
  misticaComponents :: "string list"
  reason :: Reason
  priority :: int

record ElementMappings =
  buttons :: ElementMapping
  texts :: ElementMapping
  lists :: ElementMapping
  containers :: ElementMapping
  icons :: ElementMapping
  inputs :: ElementMapping
  navigation :: ElementMapping

text \<open>The object \<open>{ elements, structure, patterns }\<close> that the scoring receives.\<close>

record Analysis =
  elements :: UIElements
  structure' :: StructuralAnalysis
  patterns :: UIPatterns

text \<open>
  Sequencing of steps that may raise, and \<open>forEach\<close> over a list with a callback that
  may raise: the first error ends the loop.
\<close>

definition bindE :: "error + 'a \<Rightarrow> ('a \<Rightarrow> error + 'b) \<Rightarrow> error + 'b" where
  "bindE m f = (case m of Inl e \<Rightarrow> Inl e | Inr x \<Rightarrow> f x)"

fun forEachE :: "('a \<Rightarrow> 's \<Rightarrow> error + 's) \<Rightarrow> 'a list \<Rightarrow> 's \<Rightarrow> error + 's" where
  "forEachE f [] s = Inr s"
| "forEachE f (x # xs) s = (case f x s of Inl e \<Rightarrow> Inl e | Inr s' \<Rightarrow> forEachE f xs s')"

text \<open>
  The catalog argument may be \<open>null\<close> or \<open>undefined\<close> (\<open>None\<close>): calling \<open>filter\<close> or
  \<open>find\<close> on it raises a \<open>TypeError\<close>.
\<close>

definition filterE :: "'a list option \<Rightarrow> ('a \<Rightarrow> bool) \<Rightarrow> error + 'a list" where
  "filterE xs p = (case xs of None \<Rightarrow> Inl TypeError | Some ys \<Rightarrow> Inr (filter p ys))"

definition findE :: "'a list option \<Rightarrow> ('a \<Rightarrow> bool) \<Rightarrow> error + 'a option" where
  "findE xs p = (case xs of None \<Rightarrow> Inl TypeError | Some ys \<Rightarrow> Inr (find p ys))"

definition getButtonComponents :: "ButtonElements \<Rightarrow> string list" where
  "getButtonComponents b =
     (let components = [];
          components = (if ButtonElements.hasActions b
                        then components @ [''ButtonPrimary'', ''ButtonSecondary'', ''Touchable'']
                        else components);
          components = (if ''icon'' \<in> set (variants b) then components @ [''IconButton'']
                        else components);
          components = (if ''link'' \<in> set (variants b) then components @ [''TextLink'']
                        else components);
          components = (if ''danger'' \<in> set (variants b) then components @ [''ButtonDanger'']
                        else components)
      in if length components > 0 then components else [''ButtonPrimary'', ''Touchable''])"

definition getButtonReason :: "ButtonElements \<Rightarrow> Reason" where
  "getButtonReason b = (if ButtonElements.hasActions b then ButtonActionsReason else ButtonBasicReason)"

definition getTextComponents :: "TextElements \<Rightarrow> string list" where
  "getTextComponents t =
     (let components = [];
          components = (if ''h1'' \<in> set (hierarchy t) then components @ [''Title1'']
                        else components);
          components = (if ''h2'' \<in> set (hierarchy t) then components @ [''Title2'']
                        else components);
          components = (if ''h3'' \<in> set (hierarchy t) then components @ [''Title3'']
                        else components);
          components = (if ''subtitle'' \<in> set (hierarchy t)
                        then components @ [''Title2'', ''Title3''] else components);
          components = (if ''body'' \<in> set (hierarchy t) then components @ [''Text'']
                        else components)
      in if length components > 0 then components else [''Text'', ''Title1''])"

definition getTextReason :: "TextElements \<Rightarrow> Reason" where
  "getTextReason t = (if hasFormatting t then TextFormattingReason else TextContentReason)"

definition getListComponents :: "ListElements \<Rightarrow> StructuralAnalysis \<Rightarrow> string list" where
  "getListComponents l st =
     (let components = [];
          components =
            (if hasNavigation l \<and> hasIcons (ListElements.structure' l)
             then components @ [''BoxedRowList'', ''BoxedRow'']
             else if hasNavigation l then components @ [''RowList'', ''BoxedRow'']
             else if isRepeated l then components @ [''RowList'', ''BoxedRowList'']
             else components);
          components = (if ListStructure.hasActions (ListElements.structure' l)
                        then components @ [''BoxedRow'', ''Menu''] else components)
      in if length components > 0 then components else [''RowList''])"

definition getListReason :: "ListElements \<Rightarrow> StructuralAnalysis \<Rightarrow> Reason" where
  "getListReason l st =
     (if hasNavigation l \<and> hasIcons (ListElements.structure' l) then ListIdealReason
      else if isRepeated l then ListRepeatedReason
      else ListContentReason)"

definition getContainerComponents ::
    "ContainerElements \<Rightarrow> StructuralAnalysis \<Rightarrow> SpacingElements \<Rightarrow> string list" where
  "getContainerComponents c st sp =
     (let components = [];
          components = (if StructuralAnalysis.layoutType st = ''vertical''
                        then components @ [''Stack''] else components);
          components = (if StructuralAnalysis.layoutType st = ''horizontal''
                        then components @ [''Inline''] else components);
          components = (if StructuralAnalysis.layoutType st = ''grid''
                        then components @ [''Grid'', ''GridLayout''] else components);
          components = (if hasPadding c then components @ [''Box''] else components);
          components =
            (if SpacingElements.found sp then
               (let components =
                      (if ''design-system-aligned'' \<in> set (spacingPatterns sp) then
                         (let components = ''Stack'' # components;
                              misticaValues = [''8px'', ''16px'', ''24px'', ''32px'']
                          in if list_ex (\<lambda>v. v \<in> set misticaValues) (spacingValues sp)
                             then ''Box'' # components else components)
                       else components);
                    components = (if ''gap'' \<in> set (spacingTypes sp)
                                  then components @ [''Inline''] else components);
                    components = (if length (spacingTypes sp) > 2
                                  then components @ [''Grid''] else components)
                in components)
             else components);
          components = (if ''card'' \<in> set (ContainerElements.types c)
                        then components @ [''DataCard'', ''MediaCard''] else components)
      in if length components > 0 then uniqueInOrder components else [''Box'', ''Stack''])"

definition getContainerReason ::
    "ContainerElements \<Rightarrow> StructuralAnalysis \<Rightarrow> SpacingElements \<Rightarrow> Reason" where
  "getContainerReason c st sp =
     (if SpacingElements.found sp \<and> ''design-system-aligned'' \<in> set (spacingPatterns sp)
      then ContainerAlignedReason
      else if SpacingElements.found sp \<and> ''consistent'' \<in> set (spacingPatterns sp)
      then ContainerConsistentReason
      else if SpacingElements.found sp \<and> ''mixed'' \<in> set (spacingPatterns sp)
      then ContainerMixedReason
      else if StructuralAnalysis.layoutType st = ''vertical'' then ContainerVerticalReason
      else if StructuralAnalysis.layoutType st = ''grid'' then ContainerGridReason
      else ContainerDefaultReason)"

definition getIconComponents :: "IconElements \<Rightarrow> string list" where
  "getIconComponents i = (if hasInteraction i then [''IconButton''] else [''Logo''])"

definition getIconReason :: "IconElements \<Rightarrow> Reason" where
  "getIconReason i = (if hasInteraction i then IconInteractiveReason else IconDecorativeReason)"

definition getInputComponents :: "InputElements \<Rightarrow> string list" where
  "getInputComponents i =
     (let components =
            concat (map (\<lambda>t.
              if t = ''email'' then [''EmailField'']
              else if t = ''password'' then [''PasswordField'']
              else if t = ''number'' then [''IntegerField'', ''DecimalField'']
              else if t = ''search'' then [''SearchField'']
              else if t = ''date'' then [''DateField'', ''DateTimeField'']
              else if t = ''textarea'' then [''TextField'']
              else [''TextField'']) (InputElements.types i));
          components = (if InputElements.hasValidation i then components @ [''Form'']
                        else components)
      in if length components > 0 then components else [''TextField''])"

definition getInputReason :: "InputElements \<Rightarrow> Reason" where
  "getInputReason i =
     (if InputElements.hasValidation i then InputValidationReason else InputDataReason)"

definition getNavigationComponents :: "NavigationElements \<Rightarrow> string list" where
  "getNavigationComponents n =
     (let components = [''NavigationBar''];
          components = (if hasTitle n \<and> \<not> hasBackButton n then components @ [''Header'']
                        else components);
          components = (if NavigationElements.hasActions n then components @ [''Header'']
                        else components)
      in components)"

definition getNavigationReason :: "NavigationElements \<Rightarrow> Reason" where
  "getNavigationReason n =
     (if hasBackButton n then NavigationBackReason
      else if NavigationElements.hasActions n then NavigationActionsReason
      else NavigationBasicReason)"

definition createElementMappings ::
    "UIElements \<Rightarrow> StructuralAnalysis \<Rightarrow> UIPatterns \<Rightarrow> ElementMappings" where
  "createElementMappings els st pats =
     \<lparr>ElementMappings.buttons =
        \<lparr>detected = ButtonElements.found (UIElements.buttons els),
         misticaComponents = getButtonComponents (UIElements.buttons els),
         reason = getButtonReason (UIElements.buttons els),
         priority = (if ButtonElements.hasActions (UIElements.buttons els) then 90 else 70)\<rparr>,
      texts =
        \<lparr>detected = TextElements.found (UIElements.texts els),
         misticaComponents = getTextComponents (UIElements.texts els),
         reason = getTextReason (UIElements.texts els),
         priority = 60\<rparr>,
      lists =
        \<lparr>detected = ListElements.found (UIElements.lists els),
         misticaComponents = getListComponents (UIElements.lists els) st,
         reason = getListReason (UIElements.lists els) st,
         priority = (if hasNavigation (UIElements.lists els) then 95 else 80)\<rparr>,
      containers =
        \<lparr>detected = ContainerElements.found (UIElements.containers els),
         misticaComponents =
           getContainerComponents (UIElements.containers els) st (UIElements.spacing els),
         reason = getContainerReason (UIElements.containers els) st (UIElements.spacing els),
         priority = 50\<rparr>,
      icons =
        \<lparr>detected = IconElements.found (UIElements.icons els),
         misticaComponents = getIconComponents (UIElements.icons els),
         reason = getIconReason (UIElements.icons els),
         priority = (if hasInteraction (UIElements.icons els) then 75 else 40)\<rparr>,
      inputs =
        \<lparr>detected = InputElements.found (UIElements.inputs els),
         misticaComponents = getInputComponents (UIElements.inputs els),
         reason = getInputReason (UIElements.inputs els),
         priority = (if InputElements.hasValidation (UIElements.inputs els) then 85 else 70)\<rparr>,
      navigation =
        \<lparr>detected = NavigationElements.found (UIElements.navigation els),
         misticaComponents = getNavigationComponents (UIElements.navigation els),
         reason = getNavigationReason (UIElements.navigation els),
         priority = 90\<rparr>\<rparr>"

text \<open>\<open>Object.entries\<close> of the mappings, in the order of the keys.\<close>

definition entries :: "ElementMappings \<Rightarrow> (string \<times> ElementMapping) list" where
  "entries m =
     [(''buttons'', ElementMappings.buttons m), (''texts'', ElementMappings.texts m),
      (''lists'', ElementMappings.lists m), (''containers'', ElementMappings.containers m),
      (''icons'', ElementMappings.icons m), (''inputs'', ElementMappings.inputs m),
      (''navigation'', ElementMappings.navigation m)]"

text \<open>
  \<open>inferComplexity\<close>: the sum of the \<open>count\<close> fields over all families (those that have
  no such field add 0).
\<close>

definition inferComplexity :: "Analysis \<Rightarrow> string" where
  "inferComplexity a =
     (let els = elements a;
          elementCounts =
            ButtonElements.count (UIElements.buttons els)
            + TextElements.count (UIElements.texts els)
            + ContainerElements.count (UIElements.containers els)
            + ListElements.count (UIElements.lists els)
            + IconElements.count (UIElements.icons els)
            + InputElements.count (UIElements.inputs els)
            + ImageElements.count (images els)
      in if elementCounts > 15 then ''high''
         else if elementCounts > 8 then ''medium''
         else ''low'')"

text \<open>
  The category boosts; a category from outside the table adds 0 (the catalog's categories
  are the fixed ones of the data model: no name inherited by every object is among them).
\<close>

definition categoryBoosts :: "string \<Rightarrow> int" where
  "categoryBoosts c =
     (if c = ''components'' then 25
      else if c = ''layout'' then 20
      else if c = ''icons'' then 15
      else if c = ''utilities'' then 10
      else if c = ''hooks'' then 5
      else 0)"

definition calculateIntelligentScore ::
    "string \<Rightarrow> MisticaComponent \<Rightarrow> Analysis \<Rightarrow> ElementMapping \<Rightarrow> int" where
  "calculateIntelligentScore elementType cmpt a mapping =
     (let sc = (if priority mapping = 0 then 50 else priority mapping);
          componentName = toLowerCase (name cmpt);
          sc = (if str_includes componentName elementType then sc + 30 else sc);
          sc = sc + categoryBoosts (category cmpt);
          sp = UIElements.spacing (elements a);
          sc =
            (if SpacingElements.found sp then
               (let sc = (if ''design-system-aligned'' \<in> set (spacingPatterns sp)
                             \<and> (category cmpt = ''layout''
                                  \<or> str_includes componentName ''stack''
                                  \<or> str_includes componentName ''box'')
                          then sc + 25 else sc);
                    sc = (if ''consistent'' \<in> set (spacingPatterns sp) then sc + 15 else sc);
                    spacingComponents = [''stack'', ''box'', ''container'', ''grid'', ''flex''];
                    sc = (if list_ex (\<lambda>t. str_includes componentName t) spacingComponents
                          then sc + 20 else sc);
                    sc = (if ''mixed'' \<in> set (spacingPatterns sp)
                             \<and> (elementType = ''layout'' \<or> elementType = ''containers'')
                          then sc - 10 else sc)
                in sc)
             else sc);
          complexity = inferComplexity a;
          sc = sc + (if complexity = ''high'' then 20
                     else if complexity = ''medium'' then 15
                     else 10);
          sc = (if elementType = ''lists'' \<and> \<not> str_includes componentName ''list''
                   \<and> \<not> str_includes componentName ''row''
                then sc - 20 else sc);
          sc = (if elementType = ''buttons'' \<and> \<not> str_includes componentName ''button''
                   \<and> \<not> str_includes componentName ''touchable''
                then sc - 15 else sc)
      in max sc 0)"

definition findComponentsByPattern ::
    "MisticaComponent list option \<Rightarrow> string list \<Rightarrow> error + MisticaComponent list" where
  "findComponentsByPattern components pats =
     filterE components (\<lambda>cmpt.
       let nm = toLowerCase (name cmpt);
           ds = toLowerCase (description cmpt)
       in list_ex (\<lambda>p. str_includes nm (toLowerCase p) \<or> str_includes ds (toLowerCase p)) pats)"

text \<open>
  One pattern of \<open>getPatternBasedSuggestions\<close>: each name that the catalog resolves
  (exact match) becomes a suggestion with the pattern's reason and score.
\<close>

definition patternSuggestions ::
    "MisticaComponent list option \<Rightarrow> string list \<Rightarrow> Reason \<Rightarrow> int \<Rightarrow>
     ComponentSuggestion list \<Rightarrow> error + ComponentSuggestion list" where
  "patternSuggestions allComponents names r sc suggestions =
     forEachE (\<lambda>nm suggestions.
        bindE (findE allComponents (\<lambda>c. name c = nm)) (\<lambda>found.
          case found of
            None \<Rightarrow> Inr suggestions
          | Some c \<Rightarrow> Inr (suggestions @ [\<lparr>component = c, reason = r, score = sc\<rparr>])))
       names suggestions"

definition getPatternBasedSuggestions ::
    "UIPatterns \<Rightarrow> MisticaComponent list option \<Rightarrow> error + ComponentSuggestion list" where
  "getPatternBasedSuggestions pats allComponents =
     bindE (if listPattern pats
            then patternSuggestions allComponents [''BoxedRowList'', ''RowList'', ''BoxedRow'']
                   ListPatternReason 85 []
            else Inr []) (\<lambda>suggestions.
     bindE (if cardPattern pats
            then patternSuggestions allComponents
                   [''DataCard'', ''MediaCard'', ''HighlightedCard'', ''BoxedRow'']
                   CardPatternReason 80 suggestions
            else Inr suggestions) (\<lambda>suggestions.
     bindE (if formPattern pats
            then patternSuggestions allComponents
                   [''Form'', ''TextField'', ''EmailField'', ''PasswordField'']
                   FormPatternReason 85 suggestions
            else Inr suggestions) (\<lambda>suggestions.
     bindE (if navigationPattern pats
            then patternSuggestions allComponents
                   [''NavigationBar'', ''Header'', ''NavigationBreadcrumbs'']
                   NavigationPatternReason 90 suggestions
            else Inr suggestions) (\<lambda>suggestions.
           (if modalPattern pats
            then patternSuggestions allComponents [''ActionsSheet'', ''Drawer'', ''InfoSheet'']
                   ModalPatternReason 85 suggestions
            else Inr suggestions)))))"

text \<open>
  \<open>findIndex\<close>, and the filter of \<open>findMisticaEquivalents\<close> that keeps a suggestion when
  its index is the index of the first suggestion with the same component name.
\<close>

fun findIndex :: "('a \<Rightarrow> bool) \<Rightarrow> 'a list \<Rightarrow> nat option" where
  "findIndex p [] = None"
| "findIndex p (x # xs) =
     (if p x then Some 0 else map_option Suc (findIndex p xs))"

definition firstByName :: "ComponentSuggestion list \<Rightarrow> ComponentSuggestion list" where
  "firstByName self =
     map snd (filter (\<lambda>(index, suggestion).
         Some index = findIndex (\<lambda>s. name (component s) = name (component suggestion)) self)
       (enumerate 0 self))"

text \<open>
  \<open>sort((a, b) => b.score - a.score)\<close>: a stable sort, descending by score.
\<close>

definition sortByScoreDesc :: "ComponentSuggestion list \<Rightarrow> ComponentSuggestion list" where
  "sortByScoreDesc xs = sort_key (\<lambda>s. - score s) xs"

text \<open>
  The first part of \<open>findMisticaEquivalents\<close>: everything that is pushed to \<open>suggestions\<close>,
  in order (the two special cases, the element mappings, the pattern suggestions).
\<close>

definition collectSuggestions ::
    "UIElements \<Rightarrow> StructuralAnalysis \<Rightarrow> UIPatterns \<Rightarrow> MisticaComponent list option \<Rightarrow>
     error + ComponentSuggestion list" where
  "collectSuggestions els st pats allComponents =
     bindE (if hasFixedFooter (layouts els) \<and> containsButtonInFooter (layouts els)
            then bindE (findComponentsByPattern allComponents
                          [''layout'', ''footer'', ''fixed'', ''button''])
                   (\<lambda>footerLayoutComponents.
                      Inr (map (\<lambda>cmpt. \<lparr>component = cmpt, reason = FooterLayoutReason,
                                          score = 95\<rparr>) footerLayoutComponents))
            else Inr []) (\<lambda>suggestions.
     bindE (if hasPinField (security els) \<or> hasCodeInput (security els)
            then bindE (findComponentsByPattern allComponents
                          [''pin'', ''code'', ''security'', ''otp'', ''verification''])
                   (\<lambda>pinFieldComponents.
                      Inr (suggestions @
                           map (\<lambda>cmpt. \<lparr>component = cmpt, reason = PinFieldReason,
                                          score = 90\<rparr>) pinFieldComponents))
            else Inr suggestions) (\<lambda>suggestions.
     bindE (forEachE (\<lambda>(elementType, mapping) suggestions.
              if detected mapping then
                forEachE (\<lambda>componentName suggestions.
                   bindE (findE allComponents
                            (\<lambda>c. toLowerCase (name c) = toLowerCase componentName))
                     (\<lambda>found. case found of
                        None \<Rightarrow> Inr suggestions
                      | Some c \<Rightarrow>
                          Inr (suggestions @
                               [\<lparr>component = c, reason = ElementMapping.reason mapping,
                                 score = calculateIntelligentScore elementType c
                                   \<lparr>elements = els, structure' = st, patterns = pats\<rparr>
                                   mapping\<rparr>])))
                  (misticaComponents mapping) suggestions
              else Inr suggestions)
            (entries (createElementMappings els st pats)) suggestions) (\<lambda>suggestions.
     bindE (getPatternBasedSuggestions pats allComponents) (\<lambda>patternSuggestions.
       Inr (suggestions @ patternSuggestions)))))"

text \<open>
  \<open>findMisticaEquivalents\<close>: the collected suggestions, without the later duplicates of a
  component name, sorted by score, cut to ten.
\<close>

definition findMisticaEquivalents ::
    "UIElements \<Rightarrow> StructuralAnalysis \<Rightarrow> UIPatterns \<Rightarrow> MisticaComponent list option \<Rightarrow>
     error + ComponentSuggestion list" where
  "findMisticaEquivalents els st pats allComponents =
     bindE (collectSuggestions els st pats allComponents) (\<lambda>suggestions.
       Inr (take 10 (sortByScoreDesc (firstByName suggestions))))"

text \<open>
  For the statements about the mapper: the suggestions without the later duplicates of a
  component name, by recursion on the list (\<open>dedupBy suggestionName\<close>); and the inputs on which \<open>findMisticaEquivalents\<close> reads
  the catalog (a special case, a detected family, or one of the five patterns).
\<close>


fun dedupBy :: "('a \<Rightarrow> 'k) \<Rightarrow> 'a list \<Rightarrow> 'a list" where
  "dedupBy k [] = []"
| "dedupBy k (x # xs) = x # filter (\<lambda>y. k y \<noteq> k x) (dedupBy k xs)"

definition suggestionName :: "ComponentSuggestion \<Rightarrow> string" where
  "suggestionName s = name (component s)"

definition readsCatalog :: "UIElements \<Rightarrow> UIPatterns \<Rightarrow> bool" where
  "readsCatalog els pats =
     ((hasFixedFooter (layouts els) \<and> containsButtonInFooter (layouts els))
      \<or> hasPinField (security els) \<or> hasCodeInput (security els)
      \<or> ButtonElements.found (UIElements.buttons els)
      \<or> TextElements.found (UIElements.texts els)
      \<or> ListElements.found (UIElements.lists els)
      \<or> ContainerElements.found (UIElements.containers els)
      \<or> IconElements.found (UIElements.icons els)
      \<or> InputElements.found (UIElements.inputs els)
      \<or> NavigationElements.found (UIElements.navigation els)
      \<or> listPattern pats \<or> cardPattern pats \<or> formPattern pats
      \<or> navigationPattern pats \<or> modalPattern pats)"

text \<open>
  Two analysis inputs for the examples. The first is the analysis of the empty markup:
  nothing is found, and the fields that have a default hold it. The second is the analysis
  of the markup \<open>fixed footer button onClick\<close>: a fixed footer that holds a button, and one
  button with an action.
\<close>

definition emptyMarkupElements :: UIElements where
  "emptyMarkupElements =
     \<lparr>UIElements.buttons =
        \<lparr>ButtonElements.found = False, count = 0, hasActions = False, variants = [],
         positions = [''inline'']\<rparr>,
      texts =
        \<lparr>TextElements.found = False, count = 0, hasFormatting = False, hierarchy = [],
         figmaPresets = []\<rparr>,
      containers =
        \<lparr>ContainerElements.found = False, count = 0, hasLayout = False, hasPadding = False,
         types = []\<rparr>,
      lists =
        \<lparr>ListElements.found = False, count = 0, isRepeated = False, hasNavigation = False,
         structure' = \<lparr>hasIcons = False, hasActions = False, hasSubtitle = False,
                        isNested = False\<rparr>\<rparr>,
      icons =
        \<lparr>IconElements.found = False, count = 0, hasInteraction = False, types = []\<rparr>,
      inputs =
        \<lparr>InputElements.found = False, count = 0, types = [], hasValidation = False\<rparr>,
      images = \<lparr>ImageElements.found = False, count = 0, isDecorative = True\<rparr>,
      navigation =
        \<lparr>NavigationElements.found = False, hasBackButton = False, hasTitle = False,
         hasActions = False\<rparr>,
      layouts =
        \<lparr>LayoutElements.found = False, hasFixedFooter = False, hasFixedHeader = False,
         hasModal = False, layoutType = ''standard'', containsButtonInFooter = False\<rparr>,
      security =
        \<lparr>SecurityElements.found = False, hasPinField = False, hasCodeInput = False,
         hasOTPInput = False, securityLevel = ''none''\<rparr>,
      forms =
        \<lparr>FormElements.found = False, hasValidation = False, fieldTypes = [],
         hasSubmitButton = False, structure' = ''simple''\<rparr>,
      spacing =
        \<lparr>SpacingElements.found = False, hasExplicitSpacing = False, spacingTypes = [],
         spacingValues = [], spacingPatterns = [''design-system''], detectedUnits = [],
         semanticSpacing = []\<rparr>,
      feedback =
        \<lparr>FeedbackElements.found = False, type = ''generic'', hasScreen = False,
         hasIcon = False, hasActions = False, detectedNames = []\<rparr>,
      figmaComponents = \<lparr>FigmaComponentElements.found = False, detectedComponents = []\<rparr>\<rparr>"

definition emptyMarkupStructure :: StructuralAnalysis where
  "emptyMarkupStructure =
     \<lparr>hasNestedElements = False, layoutType = ''flow'', repetitiveElements = False,
      interactionElements = [], spacing = ''implicit'', alignment = ''default''\<rparr>"

definition emptyMarkupPatterns :: UIPatterns where
  "emptyMarkupPatterns =
     \<lparr>listPattern = False, cardPattern = False, formPattern = False,
      navigationPattern = False, modalPattern = False, tablePattern = False,
      headerPattern = False, footerPattern = False\<rparr>"

definition footerButtonElements :: UIElements where
  "footerButtonElements =
     emptyMarkupElements
       \<lparr>UIElements.buttons :=
          \<lparr>ButtonElements.found = True, count = 1, hasActions = True, variants = [],
           positions = [''footer'']\<rparr>,
        UIElements.lists :=
          \<lparr>ListElements.found = False, count = 0, isRepeated = True, hasNavigation = False,
           structure' = \<lparr>hasIcons = False, hasActions = False, hasSubtitle = False,
                          isNested = False\<rparr>\<rparr>,
        UIElements.icons :=
          \<lparr>IconElements.found = False, count = 0, hasInteraction = False,
           types = [''status'']\<rparr>,
        UIElements.layouts :=
          \<lparr>LayoutElements.found = True, hasFixedFooter = True, hasFixedHeader = False,
           hasModal = False, layoutType = ''fixed-footer-with-button'',
           containsButtonInFooter = True\<rparr>,
        UIElements.feedback :=
          \<lparr>FeedbackElements.found = False, type = ''generic'', hasScreen = False,
           hasIcon = False, hasActions = True, detectedNames = []\<rparr>\<rparr>"

definition footerButtonStructure :: StructuralAnalysis where
  "footerButtonStructure =
     \<lparr>hasNestedElements = False, layoutType = ''positioned'', repetitiveElements = False,
      interactionElements = [''buttons''], spacing = ''implicit'', alignment = ''default''\<rparr>"

definition footerButtonPatterns :: UIPatterns where
  "footerButtonPatterns = emptyMarkupPatterns\<lparr>footerPattern := True\<rparr>"

definition buttonPrimary :: MisticaComponent where
  "buttonPrimary =
     \<lparr>name = ''ButtonPrimary'', category = ''components'', description = ''Primary button''\<rparr>"

section \<open>Search engine\<close>

text \<open>
  \<open>query.split(/[\s\-_]+/)\<close>: the pieces between the runs of white space, hyphens and
  underscores; a run at the start or at the end of the text leaves an empty piece there.
  The flag says that the last character read was a separator; the piece in progress is
  kept reversed.
\<close>

definition isTermSeparator :: "char \<Rightarrow> bool" where
  "isTermSeparator c = (isWhiteSpace c \<or> c = CHR ''-'' \<or> c = CHR ''_'')"

fun splitPieces :: "bool \<Rightarrow> string \<Rightarrow> string \<Rightarrow> string list" where
  "splitPieces inSep cur [] = [rev cur]"
| "splitPieces inSep cur (c # cs) =
     (if isTermSeparator c
      then (if inSep then splitPieces True cur cs else rev cur # splitPieces True [] cs)
      else splitPieces False (c # cur) cs)"

definition splitTerms :: "string \<Rightarrow> string list" where
  "splitTerms query = splitPieces False [] query"

definition extractSearchTerms :: "string \<Rightarrow> string list" where
  "extractSearchTerms query =
     (let terms = filter (\<lambda>term. length term > 1) (splitTerms query)
      in uniqueInOrder (query # terms))"

definition extractContextualKeywords :: "string \<Rightarrow> string list" where
  "extractContextualKeywords query =
     (let keywords = [];
          keywords = (if str_includes query ''fixed'' \<or> str_includes query ''footer''
                      then keywords @ [''layout'', ''footer'', ''fixed''] else keywords);
          keywords = (if str_includes query ''header''
                      then keywords @ [''layout'', ''header'', ''navigation''] else keywords);
          keywords = (if str_includes query ''modal''
                      then keywords @ [''overlay'', ''dialog'', ''popup''] else keywords);
          keywords = (if str_includes query ''card''
                      then keywords @ [''container'', ''content'', ''card''] else keywords);
          keywords = (if str_includes query ''form''
                      then keywords @ [''input'', ''field'', ''form'', ''validation'']
                      else keywords);
          keywords = (if str_includes query ''list''
                      then keywords @ [''list'', ''item'', ''collection''] else keywords);
          keywords = (if str_includes query ''button''
                      then keywords @ [''action'', ''click'', ''interactive''] else keywords);
          keywords = (if str_includes query ''input'' \<or> str_includes query ''field''
                      then keywords @ [''form'', ''data'', ''entry''] else keywords);
          keywords = (if str_includes query ''pin'' \<or> str_includes query ''security''
                         \<or> str_includes query ''code''
                      then keywords @ [''security'', ''authentication'', ''input'']
                      else keywords)
      in keywords)"

definition getExpandedTermMappings :: "(string \<times> string list) list" where
  "getExpandedTermMappings =
    [(''pin'', [''pinfield'', ''code'', ''security'', ''input'', ''verification'']),
     (''pinfield'', [''pin'', ''code'', ''security'', ''otp'', ''verification'']),
     (''field'', [''textfield'', ''input'', ''form'', ''entry'']),
     (''input'', [''textfield'', ''field'', ''entry'', ''form'']),
     (''code'', [''pin'', ''otp'', ''verification'', ''security'']),
     (''security'', [''pin'', ''otp'', ''verification'', ''authentication'']),
     (''footer'', [''layout'', ''fixed'', ''bottom'', ''sticky'']),
     (''header'', [''layout'', ''top'', ''navigation'', ''navbar'']),
     (''fixed'', [''footer'', ''header'', ''layout'', ''sticky'']),
     (''layout'', [''grid'', ''stack'', ''box'', ''container'', ''wrapper'']),
     (''modal'', [''dialog'', ''popup'', ''overlay'', ''sheet'']),
     (''button'', [''action'', ''click'', ''primary'', ''secondary'', ''cta'']),
     (''primary'', [''button'', ''main'', ''action'']),
     (''secondary'', [''button'', ''auxiliary'', ''action'']),
     (''navigation'', [''navbar'', ''menu'', ''tabs'', ''breadcrumb'']),
     (''navbar'', [''navigation'', ''menu'', ''header'']),
     (''menu'', [''navigation'', ''dropdown'', ''list'']),
     (''card'', [''container'', ''content'', ''box'']),
     (''list'', [''item'', ''collection'', ''menu'']),
     (''text'', [''label'', ''title'', ''heading'', ''paragraph'']),
     (''icon'', [''symbol'', ''graphic'', ''visual'']),
     (''loading'', [''spinner'', ''progress'', ''wait'']),
     (''error'', [''feedback'', ''alert'', ''warning'']),
     (''success'', [''feedback'', ''confirmation'', ''check'']),
     (''form'', [''input'', ''field'', ''validation'', ''submit'']),
     (''validation'', [''error'', ''check'', ''verify'']),
     (''submit'', [''button'', ''action'', ''send'']),
     (''table'', [''data'', ''grid'', ''list'', ''row'']),
     (''chart'', [''graph'', ''visualization'', ''data'']),
     (''mistica'', [''telefonica'', ''brand'', ''design'', ''system'']),
     (''telefonica'', [''mistica'', ''brand'', ''company''])]"

text \<open>
  \<open>termMappings[term] || []\<close>, as the loop \<open>for (... of mappedTerms)\<close> reads it. The table
  is an object literal: for the terms \<open>constructor\<close> and \<open>__proto__\<close> the lookup gives a
  value inherited from the prototype, which is not iterable, and the loop raises a
  \<open>TypeError\<close>. (The terms are lowercased; no other inherited name is in lower case.)
\<close>

definition mappedTermsOf :: "string \<Rightarrow> error + string list" where
  "mappedTermsOf term =
     (if term = ''constructor'' \<or> term = ''__proto__'' then Inl TypeError
      else case map_of getExpandedTermMappings term of
             None \<Rightarrow> Inr []
           | Some mappedTerms \<Rightarrow> Inr mappedTerms)"

text \<open>
  The three words of \<open>getFunctionalityScore\<close> that have an accented letter, with the code
  unit of that letter: 243 in \<open>codigo\<close>, 231 in \<open>seguranca\<close>, 233 in \<open>rodape\<close>.
\<close>

definition codigo :: string where
  "codigo = ''c'' @ [char_of (243 :: nat)] @ ''digo''"

definition seguranca :: string where
  "seguranca = ''seguran'' @ [char_of (231 :: nat)] @ ''a''"

definition rodape :: string where
  "rodape = ''rodap'' @ [char_of (233 :: nat)]"

definition getFunctionalityScore :: "MisticaComponent \<Rightarrow> string \<Rightarrow> string list \<Rightarrow> int" where
  "getFunctionalityScore cmpt originalQuery searchTerms =
     (let nm = toLowerCase (name cmpt);
          ds = toLowerCase (description cmpt)
      in foldl (\<lambda>functionalScore term.
           if term \<in> {''pinfield'', ''pin field'', ''pin code'', ''security''} then
             (let functionalScore =
                    (if str_includes nm ''pin'' \<or> str_includes nm ''code''
                        \<or> str_includes nm ''security''
                     then functionalScore + 60 else functionalScore);
                  functionalScore =
                    (if str_includes ds codigo \<or> str_includes ds ''pin''
                        \<or> str_includes ds seguranca
                     then functionalScore + 40 else functionalScore)
              in functionalScore)
           else if term \<in> {''fixed footer'', ''footer layout'', ''button fixed footer''} then
             (let functionalScore =
                    (if str_includes nm ''footer'' \<or> str_includes nm ''layout''
                        \<or> str_includes nm ''fixed''
                     then functionalScore + 60 else functionalScore);
                  functionalScore =
                    (if str_includes ds ''footer'' \<or> str_includes ds rodape
                        \<or> str_includes ds ''fixo''
                     then functionalScore + 40 else functionalScore)
              in functionalScore)
           else if term \<in> {''input'', ''field''} then
             (if str_includes nm ''input'' \<or> str_includes nm ''field''
                 \<or> str_includes nm ''textfield''
              then functionalScore + 50 else functionalScore)
           else if term \<in> {''text'', ''label''} then
             (if str_includes nm ''text'' \<or> str_includes nm ''label''
                 \<or> str_includes nm ''title''
              then functionalScore + 45 else functionalScore)
           else functionalScore)
         0 (searchTerms @ [originalQuery]))"

text \<open>
  The body of the first loop of \<open>calculateRelevanceScore\<close>: what one search term adds for
  the name.
\<close>

definition nameMatchScore :: "string \<Rightarrow> string \<Rightarrow> int" where
  "nameMatchScore nm term =
     (let sc = 0;
          sc = (if nm = term then sc + 90 else sc);
          sc = (if str_includes nm term
                then (if startsWith nm term then sc + 80
                      else if endsWith nm term then sc + 70
                      else sc + 60)
                else sc)
      in sc)"

text \<open>The body of the second loop: what the expansions of one term add.\<close>

definition mappedTermsScore :: "string \<Rightarrow> string \<Rightarrow> string list \<Rightarrow> int" where
  "mappedTermsScore nm ds mappedTerms =
     foldl (\<lambda>sc mappedTerm.
        (let sc = (if str_includes nm mappedTerm then sc + 50 else sc);
             sc = (if str_includes ds mappedTerm then sc + 30 else sc)
         in sc)) 0 mappedTerms"

definition calculateRelevanceScore ::
    "MisticaComponent \<Rightarrow> string \<Rightarrow> string list \<Rightarrow> string list \<Rightarrow> error + int" where
  "calculateRelevanceScore cmpt originalQuery searchTerms contextualKeywords =
     (let nm = toLowerCase (name cmpt);
          ct = toLowerCase (category cmpt);
          ds = toLowerCase (description cmpt)
      in if nm = originalQuery then Inr 100
         else
           (let sc = foldl (\<lambda>sc term. sc + nameMatchScore nm term) 0 searchTerms
            in bindE (forEachE (\<lambda>term sc.
                        bindE (mappedTermsOf term) (\<lambda>mappedTerms.
                          Inr (sc + mappedTermsScore nm ds mappedTerms)))
                      searchTerms sc) (\<lambda>sc.
                 (let sc = foldl (\<lambda>sc keyword.
                             (let sc = (if str_includes nm keyword then sc + 40 else sc);
                                  sc = (if str_includes ds keyword then sc + 25 else sc);
                                  sc = (if str_includes ct keyword then sc + 20 else sc)
                              in sc)) sc contextualKeywords;
                      sc = foldl (\<lambda>sc term.
                             if ct = term \<or> ct = term @ ''s'' \<or> term = ct @ ''s''
                             then sc + 35 else sc) sc searchTerms;
                      sc = sc + getFunctionalityScore cmpt originalQuery searchTerms
                  in Inr sc))))"

text \<open>\<open>map\<close> with a callback that may raise.\<close>

fun mapE :: "('a \<Rightarrow> error + 'b) \<Rightarrow> 'a list \<Rightarrow> error + 'b list" where
  "mapE f [] = Inr []"
| "mapE f (x # xs) =
     (case f x of
        Inl e \<Rightarrow> Inl e
      | Inr y \<Rightarrow> (case mapE f xs of Inl e \<Rightarrow> Inl e | Inr ys \<Rightarrow> Inr (y # ys)))"

text \<open>
  \<open>smartSearchComponents\<close>. \<open>scoredComponents\<close> is the list of the components with their
  scores, after the filter and the stable sort, before the scores are dropped.
\<close>

definition scoredComponents ::
    "MisticaComponent list \<Rightarrow> string \<Rightarrow> error + (MisticaComponent \<times> int) list" where
  "scoredComponents components normalizedQuery =
     (let searchTerms = extractSearchTerms normalizedQuery;
          contextualKeywords = extractContextualKeywords normalizedQuery
      in bindE (mapE (\<lambda>cmpt.
                  bindE (calculateRelevanceScore cmpt normalizedQuery searchTerms
                           contextualKeywords)
                    (\<lambda>sc. Inr (cmpt, sc))) components) (\<lambda>scored.
           Inr (sort_key (\<lambda>(cmpt, sc). - sc) (filter (\<lambda>(cmpt, sc). sc > 0) scored))))"

definition smartSearchComponents ::
    "MisticaComponent list \<Rightarrow> string \<Rightarrow> error + MisticaComponent list" where
  "smartSearchComponents components query =
     (if trim query = [] then Inr components
      else
        (let normalizedQuery = trim (toLowerCase query)
         in bindE (scoredComponents components normalizedQuery) (\<lambda>scored.
              Inr (map fst scored))))"

text \<open>Two components for the examples.\<close>

definition buttonComponent :: MisticaComponent where
  "buttonComponent = \<lparr>name = ''Button'', category = ''components'', description = ''''\<rparr>"

section \<open>Skin-vars analyzer\<close>

text \<open>
  \<open>SKIN_VARS_MAPPING.colors\<close>: the categories in order, each with its named roles in
  order, each with its list of colour literals.
\<close>

definition SKIN_VARS_MAPPING :: "(string \<times> (string \<times> string list) list) list" where
  "SKIN_VARS_MAPPING =
    [(''text'',
       [(''primary'', [''#000000'', ''#1a1a1a'', ''#333333'', ''#0b2739'', ''rgb(0,0,0)'', ''black'']),
        (''secondary'', [''#666666'', ''#777777'', ''#999999'', ''#6b6c6f'', ''rgb(102,102,102)'']),
        (''tertiary'', [''#999999'', ''#aaaaaa'', ''#bbbbbb'', ''rgb(153,153,153)'']),
        (''inverse'', [''#ffffff'', ''#fff'', ''white'', ''rgb(255,255,255)'']),
        (''brand'', [''#0066cc'', ''#007acc'', ''#0080ff'', ''rgb(0,102,204)'']),
        (''success'', [''#00aa44'', ''#00cc55'', ''#22cc66'', ''rgb(0,170,68)'']),
        (''warning'', [''#ff9900'', ''#ffaa00'', ''#ffbb33'', ''rgb(255,153,0)'']),
        (''error'', [''#cc0000'', ''#dd1122'', ''#ff3344'', ''rgb(204,0,0)''])]),
     (''background'',
       [(''canvas'', [''#ffffff'', ''#fff'', ''white'', ''rgb(255,255,255)'']),
        (''canvasAlternative'', [''#f5f5f5'', ''#f0f0f0'', ''#eeeeee'', ''rgb(245,245,245)'']),
        (''container'', [''#ffffff'', ''#fff'', ''white'', ''rgb(255,255,255)'']),
        (''containerAlternative'', [''#fafafa'', ''#f8f8f8'', ''rgb(250,250,250)'']),
        (''brand'', [''#0066cc'', ''#007acc'', ''rgb(0,102,204)'']),
        (''brandSecondary'', [''#e6f2ff'', ''#f0f8ff'', ''rgb(230,242,255)''])]),
     (''border'',
       [(''primary'', [''#dddddd'', ''#d0d0d0'', ''#cccccc'', ''rgb(221,221,221)'']),
        (''secondary'', [''#eeeeee'', ''#e8e8e8'', ''rgb(238,238,238)'']),
        (''brand'', [''#0066cc'', ''#007acc'', ''rgb(0,102,204)'']),
        (''selected'', [''#0066cc'', ''#007acc'', ''rgb(0,102,204)''])]),
     (''control'',
       [(''activatedBackground'', [''#0066cc'', ''#007acc'', ''rgb(0,102,204)'']),
        (''deactivatedBackground'', [''#f5f5f5'', ''#f0f0f0'', ''rgb(245,245,245)'']),
        (''activatedText'', [''#ffffff'', ''#fff'', ''white'', ''rgb(255,255,255)'']),
        (''deactivatedText'', [''#999999'', ''#aaaaaa'', ''rgb(153,153,153)''])])]"

text \<open>
  The first match of \<open>/rgb\((\d+),\s*(\d+),\s*(\d+)\)/\<close> in a text: \<open>matchRgbAt\<close> matches
  at the start of its argument and gives the three digit runs, \<open>findRgb\<close> tries every
  start from the left. A digit run is followed by a character that is not a digit, so at
  one start there is at most one match.
\<close>

definition matchRgbAt :: "string \<Rightarrow> (string \<times> string \<times> string) option" where
  "matchRgbAt s =
     (if \<not> startsWith s ''rgb('' then None
      else
        (let s1 = drop 4 s;
             r = takeWhile isDigitChar s1;
             s2 = dropWhile isDigitChar s1
         in if r = [] \<or> \<not> startsWith s2 '','' then None
            else
              (let s3 = dropWhile isWhiteSpace (drop 1 s2);
                   g = takeWhile isDigitChar s3;
                   s4 = dropWhile isDigitChar s3
               in if g = [] \<or> \<not> startsWith s4 '','' then None
                  else
                    (let s5 = dropWhile isWhiteSpace (drop 1 s4);
                         b = takeWhile isDigitChar s5;
                         s6 = dropWhile isDigitChar s5
                     in if b = [] \<or> \<not> startsWith s6 '')'' then None
                        else Some (r, g, b)))))"

fun findRgb :: "string \<Rightarrow> (string \<times> string \<times> string) option" where
  "findRgb [] = matchRgbAt []"
| "findRgb (c # cs) =
     (case matchRgbAt (c # cs) of
        Some m \<Rightarrow> Some m
      | None \<Rightarrow> findRgb cs)"

text \<open>\<open>n.toString(16)\<close> and \<open>padStart(2, '0')\<close>.\<close>

definition hexDigitOf :: "nat \<Rightarrow> char" where
  "hexDigitOf d = (if d < 10 then char_of (48 + d) else char_of (87 + d))"

function toString16 :: "nat \<Rightarrow> string" where
  "toString16 n =
     (if n < 16 then [hexDigitOf n] else toString16 (n div 16) @ [hexDigitOf (n mod 16)])"
  by pat_completeness auto
termination
  by (relation "measure (\<lambda>n. n)") auto

declare toString16.simps [simp del]

definition padStart2 :: "string \<Rightarrow> string" where
  "padStart2 s = replicate (2 - length s) (CHR ''0'') @ s"

text \<open>
  \<open>normalizeColor\<close>: trimmed and lowercased; an \<open>rgb(r,g,b)\<close> inside the text becomes a
  hexadecimal colour, a \<open>#\<close> with three more characters is doubled. (The numbers are exact
  here; the source reads them as doubles.)
\<close>

definition normalizeColor :: "string \<Rightarrow> string" where
  "normalizeColor color0 =
     (let color = toLowerCase (trim color0)
      in case findRgb color of
           Some (r, g, b) \<Rightarrow>
             ''#'' @ padStart2 (toString16 (digitsValue 10 digitValue r))
                  @ padStart2 (toString16 (digitsValue 10 digitValue g))
                  @ padStart2 (toString16 (digitsValue 10 digitValue b))
         | None \<Rightarrow>
             if startsWith color ''#'' \<and> length color = 4
             then [CHR ''#'', color ! 1, color ! 1, color ! 2, color ! 2, color ! 3, color ! 3]
             else color)"

definition colorsMatch :: "string \<Rightarrow> string \<Rightarrow> bool" where
  "colorsMatch color1 color2 = (color1 = color2)"

definition determineColorContext :: "string \<Rightarrow> string \<Rightarrow> string" where
  "determineColorContext property element =
     (if str_includes property ''background'' then ''background''
      else if str_includes property ''border'' then ''border''
      else if property = ''color'' then ''text''
      else if str_includes (toLowerCase element) ''button'' then ''control''
      else if str_includes (toLowerCase element) ''text''
              \<or> str_includes (toLowerCase element) ''span'' then ''text''
      else if str_includes (toLowerCase element) ''div''
              \<or> str_includes (toLowerCase element) ''container'' then ''background''
      else ''text'')"

definition calculateColorConfidence :: "string \<Rightarrow> string \<Rightarrow> string \<Rightarrow> string \<Rightarrow> real" where
  "calculateColorConfidence actualColor skinColor context cat =
     (let c = 0.7;
          c = (if context = cat then c + 0.2 else c);
          c = (if actualColor = skinColor then c + 0.1 else c)
      in min c 1.0)"

record SkinVarMatch =
  varName :: string
  category :: string
  confidence :: real

text \<open>
  The three nested \<open>forEach\<close> loops of \<open>findBestSkinVarMatch\<close> visit the literals of the table
  in order; the state is the best match so far and its confidence.
\<close>

definition skinColorEntries :: "(string \<times> string \<times> string) list" where
  "skinColorEntries =
     concat (map (\<lambda>(cat, subcategories).
       concat (map (\<lambda>(subcat, colorValues).
         map (\<lambda>skinColor. (cat, subcat, skinColor)) colorValues) subcategories))
       SKIN_VARS_MAPPING)"

definition findBestSkinVarMatch :: "string \<Rightarrow> string \<Rightarrow> string \<Rightarrow> SkinVarMatch option" where
  "findBestSkinVarMatch color property element =
     (let normalizedColor = normalizeColor color;
          context = determineColorContext property element
      in fst (foldl (\<lambda>(bestMatch, highestConfidence) (cat, subcat, skinColor).
                (let normalizedSkinColor = normalizeColor skinColor
                 in if colorsMatch normalizedColor normalizedSkinColor then
                      (let c = calculateColorConfidence normalizedColor normalizedSkinColor
                                 context cat
                       in if c > highestConfidence
                          then (Some \<lparr>varName = ''skinVars.colors.'' @ subcat, category = cat,
                                      confidence = c\<rparr>, c)
                          else (bestMatch, highestConfidence))
                    else (bestMatch, highestConfidence)))
              (None, 0) skinColorEntries))"

text \<open>
  For the statements about the analyzer: the table with every literal normalized, and one
  step of the loops on a literal that is normalized already.
\<close>

definition normalizedSkinColorEntries :: "(string \<times> string \<times> string) list" where
  "normalizedSkinColorEntries =
     map (\<lambda>(cat, subcat, skinColor). (cat, subcat, normalizeColor skinColor)) skinColorEntries"

definition skinVarStep ::
    "string \<Rightarrow> string \<Rightarrow> SkinVarMatch option \<times> real \<Rightarrow> string \<times> string \<times> string \<Rightarrow>
     SkinVarMatch option \<times> real" where
  "skinVarStep normalizedColor context st e =
     (case st of (bestMatch, highestConfidence) \<Rightarrow>
      case e of (cat, subcat, normalizedSkinColor) \<Rightarrow>
        if colorsMatch normalizedColor normalizedSkinColor then
          (let c = calculateColorConfidence normalizedColor normalizedSkinColor context cat
           in if c > highestConfidence
              then (Some \<lparr>varName = ''skinVars.colors.'' @ subcat, category = cat,
                          confidence = c\<rparr>, c)
              else (bestMatch, highestConfidence))
        else (bestMatch, highestConfidence))"

section \<open>Element extractor\<close>

text \<open>
  Each regular expression of the extractor is the term that the datatype \<^typ>\<open>rx\<close> has for
  it. \<open>some\<close> over a fixed list of expressions is a disjunction of tests.
\<close>

text \<open>\<open>code.split("\n")\<close>, and \<open>hasNestedStructure\<close>: a line with more than 8 leading blanks.\<close>

fun splitLines :: "string \<Rightarrow> string \<Rightarrow> string list" where
  "splitLines cur [] = [rev cur]"
| "splitLines cur (c # cs) =
     (if c = CHR 0x0A then rev cur # splitLines [] cs else splitLines (c # cur) cs)"

definition hasNestedStructure :: "string \<Rightarrow> bool" where
  "hasNestedStructure code =
     list_ex (\<lambda>line. length (takeWhile isWhiteSpace line) > 8) (splitLines [] code)"

definition isListPattern :: "string \<Rightarrow> bool" where
  "isListPattern code = rxTest (Words [''.map'', ''FlatList'', ''ScrollView'', ''ListView'', ''VirtualizedList'']) code"

definition hasRepeatedElements :: "string \<Rightarrow> bool" where
  "hasRepeatedElements code =
     (rxTest (Seqs [Group 1 (Plus (Cls [WordCls])), LazyStar AnyChar, Backref 1, LazyStar AnyChar,
       Backref 1]) code
      \<or> rxTest (Seqs [Str ''map'', Star (Cls [SpaceCls]), Str ''('']) code
      \<or> rxTest (Str ''.map('') code
      \<or> rxTest (Words [''FlatList'', ''ScrollView'']) code
      \<or> rxTest (Alts [Str ''forEach'', Seqs [Str ''for'', Star Dot, Str ''in''], Seqs [Str ''for'',
        Star Dot, Str ''of'']]) code)"

definition detectButtonVariants :: "string \<Rightarrow> string list" where
  "detectButtonVariants code =
     (let variants = [];
          variants = (if rxTest (Words [''primary'', ''Primary'']) code then variants @ [''primary'']
                      else variants);
          variants = (if rxTest (Words [''secondary'', ''Secondary'']) code then variants @ [''secondary'']
                      else variants);
          variants = (if rxTest (Words [''danger'', ''Danger'', ''error'']) code then variants @ [''danger'']
                      else variants);
          variants = (if rxTest (Words [''link'', ''Link'']) code then variants @ [''link'']
                      else variants);
          variants = (if rxTest (Alts [Seqs [Str ''icon'', Star Dot, Str ''button''], Str ''IconButton'']) code then variants @ [''icon'']
                      else variants)
      in variants)"

definition detectButtonPositions :: "string \<Rightarrow> string list" where
  "detectButtonPositions code =
     (let positions = [];
          positions =
            (if rxTest (Alts [Seqs [Str ''footer'', Star Dot, Str ''button''], Seqs [Str ''button'',
              Star Dot, Str ''footer''], Seqs [Str ''bottom'', Star Dot, Str ''button''],
              Seqs [Str ''fixed'', Star Dot, Str ''bottom'', Star Dot, Str ''button'']])
                  code
             then positions @ [''footer''] else positions);
          positions =
            (if rxTest (Alts [Seqs [Str ''header'', Star Dot, Str ''button''], Seqs [Str ''button'',
              Star Dot, Str ''header''], Seqs [Str ''top'', Star Dot, Str ''button''],
              Seqs [Str ''navigation'', Star Dot, Str ''button'']])
                  code
             then positions @ [''header''] else positions);
          positions =
            (if length positions = 0 \<or> rxTest (Alts [Seqs [Str ''inline'', Star Dot, Str ''button''], Seqs [Str ''content'',
              Star Dot, Str ''button'']]) code
             then positions @ [''inline''] else positions)
      in positions)"

definition extractButtons :: "string \<Rightarrow> ButtonElements" where
  "extractButtons code =
     \<lparr>ButtonElements.found =
        (rxTest (Seqs [Words [''button'', ''Button'', ''btn'', ''Btn'', ''TouchableOpacity'',
          ''Pressable''], LazyStar AnyChar, Words [''onPress'', ''onClick'', ''press'']])
           code
         \<or> rxTest (Seqs [Str ''<button'', LazyStar AnyChar, Str ''>'']) code
         \<or> rxTest (Seqs [Str ''Button'', Star (Cls [WordCls]), Star (Cls [SpaceCls]), Str ''{'']) code),
      count = matchCount (Words [''button'', ''Button'', ''TouchableOpacity'', ''Pressable'']) code,
      hasActions = rxTest (Words [''onPress'', ''onClick'', ''press'', ''tap'']) code,
      variants = detectButtonVariants code,
      positions = detectButtonPositions code\<rparr>"

definition detectTextHierarchy :: "string \<Rightarrow> string list" where
  "detectTextHierarchy code =
     (let hierarchy = [];
          hierarchy =
            (if rxTest (Alts [Str ''text-preset-1/'', Str ''text-preset-1-'', Seqs [Str ''title'',
              Star Dot, Str ''1''], Str ''Title1'', Seqs [Str ''heading'', Star Dot,
              Str ''1'']]) code
             then hierarchy @ [''text1''] else hierarchy);
          hierarchy =
            (if rxTest (Alts [Str ''text-preset-2/'', Str ''text-preset-2-'', Seqs [Str ''title'',
              Star Dot, Str ''2''], Str ''Title2'', Seqs [Str ''heading'', Star Dot,
              Str ''2'']]) code
             then hierarchy @ [''text2''] else hierarchy);
          hierarchy =
            (if rxTest (Alts [Str ''text-preset-3/'', Str ''text-preset-3-'', Seqs [Str ''title'',
              Star Dot, Str ''3''], Str ''Title3'', Seqs [Str ''heading'', Star Dot,
              Str ''3'']]) code
             then hierarchy @ [''text3''] else hierarchy);
          hierarchy =
            (if rxTest (Alts [Str ''text-preset-4/'', Str ''text-preset-4-'', Seqs [Str ''title'',
              Star Dot, Str ''4''], Str ''Title4'', Seqs [Str ''heading'', Star Dot,
              Str ''4'']]) code
             then hierarchy @ [''text4''] else hierarchy);
          hierarchy =
            (if rxTest (Alts [Str ''text-preset-5/'', Str ''text-preset-5-'', Seqs [Str ''title'',
              Star Dot, Str ''5''], Str ''Title5'', Seqs [Str ''heading'', Star Dot,
              Str ''5'']]) code
             then hierarchy @ [''text5''] else hierarchy);
          hierarchy =
            (if rxTest (Alts [Str ''text-preset-6/'', Str ''text-preset-6-'', Seqs [Str ''title'',
              Star Dot, Str ''6''], Str ''Title6'', Seqs [Str ''heading'', Star Dot,
              Str ''6'']]) code
             then hierarchy @ [''text6''] else hierarchy);
          hierarchy = (if rxTest (Alts [Str ''/regular'', Seqs [Str ''text'', Star Dot, Str ''regular''],
            Str ''-regular'']) code
                       then hierarchy @ [''regular''] else hierarchy);
          hierarchy = (if rxTest (Alts [Str ''/medium'', Seqs [Str ''text'', Star Dot, Str ''medium''],
            Str ''-medium'']) code
                       then hierarchy @ [''medium''] else hierarchy);
          hierarchy = (if rxTest (Alts [Str ''/bold'', Seqs [Str ''text'', Star Dot, Str ''bold''], Str ''-bold'']) code
                       then hierarchy @ [''bold''] else hierarchy);
          hierarchy = (if rxTest (Alts [Str ''/light'', Seqs [Str ''text'', Star Dot, Str ''light''],
            Str ''-light'']) code
                       then hierarchy @ [''light''] else hierarchy);
          hierarchy = (if rxTest (Alts [Str ''h1'', Seqs [Str ''title'', Star Dot, Str ''1'']]) code then hierarchy @ [''h1'']
                       else hierarchy);
          hierarchy = (if rxTest (Alts [Str ''h2'', Seqs [Str ''title'', Star Dot, Str ''2'']]) code then hierarchy @ [''h2'']
                       else hierarchy);
          hierarchy = (if rxTest (Alts [Str ''h3'', Seqs [Str ''title'', Star Dot, Str ''3'']]) code then hierarchy @ [''h3'']
                       else hierarchy);
          hierarchy = (if rxTest (Words [''subtitle'', ''Subtitle'']) code then hierarchy @ [''subtitle'']
                       else hierarchy);
          hierarchy = (if rxTest (Words [''body'', ''Body'', ''paragraph'', ''p>'']) code then hierarchy @ [''body'']
                       else hierarchy)
      in hierarchy)"

text \<open>
  \<open>detectPresetsByName\<close>: one preset for every match of the explicit name, with the
  confidence 1.0.
\<close>

definition detectPresetsByName :: "string \<Rightarrow> FigmaTextPreset list" where
  "detectPresetsByName code =
     map (\<lambda>m. \<lparr>preset = ''text'' @ the_default [] (capture 1 m),
                variant = the_default [] (capture 3 m),
                originalName = matched m,
                fontSizeGuess = None,
                confidenceScore = 1.0\<rparr>)
       (execAll (Seqs [Str ''text-preset-'', Group 1 (Plus (Cls [DigitCls])),
         Group 2 (Cls [Ch (CHR ''/''), Ch (CHR ''-'')]), Group 3 (Plus (Cls [WordCls]))]) code)"

text \<open>
  \<open>guessVariantFromWeight\<close>. (A weight that is the name of a property that every object
  inherits, such as \<open>constructor\<close>, is outside the model: the lookup then gives a value that
  is not a text.)
\<close>

definition guessVariantFromWeight :: "string option \<Rightarrow> string" where
  "guessVariantFromWeight wt =
     (case wt of
        None \<Rightarrow> ''regular''
      | Some w \<Rightarrow>
          if w = [] then ''regular''
          else (case map_of
                  [(''300'', ''light''), (''400'', ''regular''), (''500'', ''medium''),
                   (''600'', ''medium''), (''700'', ''bold''), (''800'', ''bold''),
                   (''900'', ''bold''), (''normal'', ''regular''), (''bold'', ''bold''),
                   (''medium'', ''medium''), (''light'', ''light'')] w of
                  None \<Rightarrow> ''regular''
                | Some v \<Rightarrow> v))"

record textPresetRange =
  rangePreset :: string
  minFontSize :: nat
  maxFontSize :: nat
  rangeWeights :: "string list"

definition textPresetMapping :: "textPresetRange list" where
  "textPresetMapping =
    [\<lparr>rangePreset = ''text1'', minFontSize = 28, maxFontSize = 40,
      rangeWeights = [''400'', ''500'', ''600'', ''700'']\<rparr>,
     \<lparr>rangePreset = ''text2'', minFontSize = 20, maxFontSize = 28,
      rangeWeights = [''400'', ''500'', ''600'']\<rparr>,
     \<lparr>rangePreset = ''text3'', minFontSize = 16, maxFontSize = 20,
      rangeWeights = [''400'', ''500'', ''600'']\<rparr>,
     \<lparr>rangePreset = ''text4'', minFontSize = 14, maxFontSize = 16,
      rangeWeights = [''400'', ''500'']\<rparr>,
     \<lparr>rangePreset = ''text5'', minFontSize = 12, maxFontSize = 14,
      rangeWeights = [''400'', ''500'']\<rparr>,
     \<lparr>rangePreset = ''text6'', minFontSize = 10, maxFontSize = 12,
      rangeWeights = [''400'']\<rparr>]"

text \<open>
  The font sizes that one expression finds: \<open>parseInt(fontMatch[1] || fontMatch[2])\<close>, kept
  when it is above 0. The weights that one expression finds:
  \<open>weightMatch[1] || weightMatch[2]\<close>, kept when it is not empty.
\<close>

definition firstCapture :: "rxMatch \<Rightarrow> string option" where
  "firstCapture m =
     (case capture 1 m of
        Some t \<Rightarrow> if t = [] then capture 2 m else Some t
      | None \<Rightarrow> capture 2 m)"

definition fontSizesOf :: "rx \<Rightarrow> string \<Rightarrow> nat list" where
  "fontSizesOf pattern code =
     concat (map (\<lambda>fontMatch.
        case firstCapture fontMatch of
          None \<Rightarrow> []
        | Some t \<Rightarrow>
            (case parseInt t of
               None \<Rightarrow> []
             | Some fontSize \<Rightarrow> if fontSize > 0 then [nat fontSize] else []))
       (execAll pattern code))"

definition weightsOf :: "rx \<Rightarrow> string \<Rightarrow> string list" where
  "weightsOf pattern code =
     concat (map (\<lambda>weightMatch.
        case firstCapture weightMatch of
          None \<Rightarrow> []
        | Some w \<Rightarrow> if w = [] then [] else [w])
       (execAll pattern code))"

text \<open>\<open>String(n)\<close> for a natural number.\<close>

function toString10 :: "nat \<Rightarrow> string" where
  "toString10 n =
     (if n < 10 then [char_of (48 + n)] else toString10 (n div 10) @ [char_of (48 + n mod 10)])"
  by pat_completeness auto
termination
  by (relation "measure (\<lambda>n. n)") auto

declare toString10.simps [simp del]

text \<open>
  \<open>detectPresetsByCSSProperties\<close>. The fonts are the sizes found by the five expressions
  for sizes, in that order; every weight found is written to the last font, so that font
  has the last weight found and the others have none. A font whose size lies in a range
  of the table gives a preset with the confidence 0.7.
\<close>

definition detectPresetsByCSSProperties :: "string \<Rightarrow> FigmaTextPreset list" where
  "detectPresetsByCSSProperties code =
     (let sizes =
            fontSizesOf (Seqs [Str ''font-size:'', Star (Cls [SpaceCls]),
              Group 1 (Plus (Cls [DigitCls])), Str ''px'']) code
            @ fontSizesOf (Seqs [Str ''fontSize:'', Star (Cls [SpaceCls]), Opt (Cls [Ch (CHR 0x27),
              Ch (CHR 0x22)]), Group 1 (Plus (Cls [DigitCls])), Str ''px'',
              Opt (Cls [Ch (CHR 0x27), Ch (CHR 0x22)])]) code
            @ fontSizesOf (Seqs [Str ''fontSize:'', Star (Cls [SpaceCls]), Str ''{'',
              Group 1 (Plus (Cls [DigitCls])), Str ''}'']) code
            @ fontSizesOf (Seqs [Str ''fontSize={'', Group 1 (Plus (Cls [DigitCls])), Str ''}'']) code
            @ fontSizesOf (Alts [Seqs [Str ''text-'', Group 1 (Plus (Cls [DigitCls]))],
              Seqs [Str ''size-'', Group 2 (Plus (Cls [DigitCls]))]]) code;
          foundWeights =
            weightsOf (Seqs [Str ''font-weight:'', Star (Cls [SpaceCls]),
              Group 1 (Plus (Cls [DigitCls]))]) code
            @ weightsOf (Seqs [Str ''fontWeight:'', Star (Cls [SpaceCls]), Opt (Cls [Ch (CHR 0x27),
              Ch (CHR 0x22)]), Group 1 (Plus (Cls [DigitCls])), Opt (Cls [Ch (CHR 0x27),
              Ch (CHR 0x22)])]) code
            @ weightsOf (Seqs [Str ''fontWeight:'', Star (Cls [SpaceCls]), Opt (Cls [Ch (CHR 0x27),
              Ch (CHR 0x22)]), Group 1 (Words [''normal'', ''bold'', ''medium'', ''light'']),
              Opt (Cls [Ch (CHR 0x27), Ch (CHR 0x22)])]) code
            @ weightsOf (Seqs [Str ''fontWeight={'', Opt (Cls [Ch (CHR 0x27), Ch (CHR 0x22)]),
              Group 1 (Plus (Cls [WordCls])), Opt (Cls [Ch (CHR 0x27), Ch (CHR 0x22)]),
              Str ''}'']) code;
          lastWeight = (if foundWeights = [] then None else Some (last foundWeights));
          detectedFonts =
            (if sizes = [] then []
             else map (\<lambda>fontSize. (fontSize, None)) (butlast sizes)
                  @ [(last sizes, lastWeight)])
      in concat (map (\<lambda>(fontSize, wt).
           case find (\<lambda>p. fontSize \<ge> minFontSize p \<and> fontSize \<le> maxFontSize p)
                  textPresetMapping of
             None \<Rightarrow> []
           | Some matchingPreset \<Rightarrow>
               [\<lparr>preset = rangePreset matchingPreset,
                 variant = guessVariantFromWeight wt,
                 originalName =
                   ''Detectado por CSS: '' @ toString10 fontSize @ ''px''
                   @ (case wt of
                        None \<Rightarrow> []
                      | Some w \<Rightarrow> if w = [] then [] else '', peso: '' @ w),
                 fontSizeGuess = Some fontSize,
                 confidenceScore = 0.7\<rparr>])
         detectedFonts))"

text \<open>\<open>detectPresetsBySemanticContext\<close>: one preset for every rule whose pattern occurs.\<close>

definition semanticPreset :: "string \<Rightarrow> real \<Rightarrow> FigmaTextPreset" where
  "semanticPreset p c =
     \<lparr>preset = p, variant = ''regular'',
      originalName = ''Detectado por contexto sem'' @ [char_of (226 :: nat)] @ ''ntico'',
      fontSizeGuess = None, confidenceScore = c\<rparr>"

definition detectPresetsBySemanticContext :: "string \<Rightarrow> FigmaTextPreset list" where
  "detectPresetsBySemanticContext code =
     (let presets = [];
          presets =
            (if rxTest (Alts [Seqs [Str ''<h1'', LazyStar AnyChar, Str ''>''], Seqs [Str ''<title'',
              LazyStar AnyChar, Str ''>''], Seqs [Str ''class'', Star Dot, Str ''title'',
              Star Dot, Str ''main'']]) code
             then presets @ [semanticPreset ''text1'' 0.6] else presets);
          presets =
            (if rxTest (Alts [Seqs [Str ''<h2'', LazyStar AnyChar, Str ''>''], Seqs [Str ''class'',
              Star Dot, Str ''subtitle''], Seqs [Str ''class'', Star Dot, Str ''heading-2'']]) code
             then presets @ [semanticPreset ''text2'' 0.6] else presets);
          presets =
            (if rxTest (Alts [Seqs [Str ''<h3'', LazyStar AnyChar, Str ''>''], Seqs [Str ''class'',
              Star Dot, Str ''heading-3''], Seqs [Str ''class'', Star Dot,
              Str ''section-title'']]) code
             then presets @ [semanticPreset ''text3'' 0.5] else presets);
          presets =
            (if rxTest (Alts [Seqs [Str ''<p'', LazyStar AnyChar, Str ''>''], Seqs [Str ''class'',
              Star Dot, Str ''body''], Seqs [Str ''class'', Star Dot, Str ''paragraph'']]) code
             then presets @ [semanticPreset ''text4'' 0.4] else presets);
          presets =
            (if rxTest (Alts [Seqs [Str ''class'', Star Dot, Str ''caption''], Seqs [Str ''class'',
              Star Dot, Str ''small''], Seqs [Str ''class'', Star Dot, Str ''footnote'']]) code
             then presets @ [semanticPreset ''text5'' 0.4] else presets)
      in presets)"

text \<open>
  \<open>consolidatePresets\<close>. The \<open>Map\<close> is a list of keys with their values, in the order in
  which the keys were first set: \<open>set\<close> on a key that is there replaces the value in place.
  The values are then sorted by confidence, descending, by a stable sort.
\<close>

fun mapSet :: "'k \<Rightarrow> 'v \<Rightarrow> ('k \<times> 'v) list \<Rightarrow> ('k \<times> 'v) list" where
  "mapSet k v [] = [(k, v)]"
| "mapSet k v ((k', v') # m) = (if k' = k then (k, v) # m else (k', v') # mapSet k v m)"

definition presetKey :: "FigmaTextPreset \<Rightarrow> string" where
  "presetKey p = preset p @ ''-'' @ variant p"

definition consolidateStep ::
    "(string \<times> FigmaTextPreset) list \<Rightarrow> FigmaTextPreset \<Rightarrow> (string \<times> FigmaTextPreset) list" where
  "consolidateStep uniqueMap p =
     (let key = presetKey p;
          existing = map_of uniqueMap key
      in if existing = None
            \<or> FigmaTextPreset.confidenceScore p > FigmaTextPreset.confidenceScore (the existing)
         then mapSet key p uniqueMap
         else uniqueMap)"

definition consolidatePresets :: "FigmaTextPreset list \<Rightarrow> FigmaTextPreset list" where
  "consolidatePresets presets =
     sort_key (\<lambda>p. - FigmaTextPreset.confidenceScore p)
       (map snd (foldl consolidateStep [] presets))"

definition extractFigmaTextPresets :: "string \<Rightarrow> FigmaTextPreset list" where
  "extractFigmaTextPresets code =
     (let presets = [];
          presets = presets @ detectPresetsByName code;
          presets = presets @ detectPresetsByCSSProperties code;
          presets = presets @ detectPresetsBySemanticContext code
      in consolidatePresets presets)"

definition extractTexts :: "string \<Rightarrow> TextElements" where
  "extractTexts code =
     \<lparr>TextElements.found =
        (rxTest (Seqs [Str ''<Text'', LazyStar AnyChar, Str ''>'']) code
         \<or> rxTest (Seqs [Str ''<h'', Cls [Rng (CHR ''1'') (CHR ''6'')], LazyStar AnyChar, Str ''>'']) code
         \<or> rxTest (Seqs [Str ''<p'', LazyStar AnyChar, Str ''>'']) code
         \<or> rxTest (Alts [Seqs [Str ''Title'', Star (Cls [DigitCls])], Str ''Heading'',
           Str ''Typography'']) code
         \<or> rxTest (Seqs [Str ''text-preset-'', Plus (Cls [DigitCls]), Str ''/'',
           Plus (Cls [WordCls])]) code
         \<or> rxTest (Seqs [Str ''text-preset-'', Plus (Cls [DigitCls]), Str ''-'',
           Plus (Cls [WordCls])]) code),
      count = matchCount (Alts [Str ''Text'', Str ''title'', Str ''heading'', Seqs [Str ''h'', Cls [DigitCls]],
        Str ''p>'', Seqs [Str ''text-preset-'', Plus (Cls [DigitCls])]]) code,
      hasFormatting =
        rxTest (Words [''bold'', ''italic'', ''font-size'', ''color'', ''weight'', ''/regular'',
          ''/medium'', ''/bold'', ''/light'']) code,
      hierarchy = detectTextHierarchy code,
      figmaPresets = extractFigmaTextPresets code\<rparr>"

definition detectContainerTypes :: "string \<Rightarrow> string list" where
  "detectContainerTypes code =
     (let types = [];
          types = (if rxTest (Words [''Stack'', ''stack'']) code then types @ [''stack''] else types);
          types = (if rxTest (Words [''Box'', ''box'']) code then types @ [''box''] else types);
          types = (if rxTest (Words [''Grid'', ''grid'']) code then types @ [''grid''] else types);
          types = (if rxTest (Words [''Card'', ''card'']) code then types @ [''card''] else types);
          types = (if rxTest (Words [''Container'', ''container'']) code then types @ [''container'']
                   else types)
      in types)"

definition extractContainers :: "string \<Rightarrow> ContainerElements" where
  "extractContainers code =
     \<lparr>ContainerElements.found = rxTest (Words [''div'', ''View'', ''Container'', ''Box'', ''Stack'', ''Grid'']) code,
      count = matchCount (Words [''div'', ''View'', ''Container'', ''Box'', ''Stack'']) code,
      hasLayout = rxTest (Words [''flex'', ''grid'', ''stack'', ''column'', ''row'']) code,
      hasPadding = rxTest (Words [''padding'', ''margin'', ''space'']) code,
      types = detectContainerTypes code\<rparr>"

definition analyzeListStructure :: "string \<Rightarrow> ListStructure" where
  "analyzeListStructure code =
     \<lparr>hasIcons = (rxTest (Words [''icon'', ''Icon'']) code \<and> isListPattern code),
      hasActions = (rxTest (Words [''chevron'', ''arrow'', ''onPress'']) code \<and> isListPattern code),
      hasSubtitle = rxTest (Words [''subtitle'', ''description'']) code,
      isNested = (hasNestedStructure code \<and> isListPattern code)\<rparr>"

definition extractLists :: "string \<Rightarrow> ListElements" where
  "extractLists code =
     \<lparr>ListElements.found = rxTest (Alts [Str ''FlatList'', Str ''ScrollView'', Str ''map('', Seqs [Str ''Row'', Star Dot,
       Str ''Row''], Seqs [Str ''Item'', Star Dot, Str ''Item'']]) code,
      count = matchCount (Words [''Row'', ''Item'', ''List'']) code,
      isRepeated = hasRepeatedElements code,
      hasNavigation = rxTest (Words [''chevron'', ''arrow'', ''>'']) code,
      structure' = analyzeListStructure code\<rparr>"

definition detectIconTypes :: "string \<Rightarrow> string list" where
  "detectIconTypes code =
     (let types = [];
          types = (if rxTest (Words [''chevron'', ''arrow'']) code then types @ [''navigation'']
                   else types);
          types = (if rxTest (Words [''check'', ''tick'', ''cross'', ''x'']) code then types @ [''status'']
                   else types);
          types = (if rxTest (Words [''star'', ''heart'', ''bookmark'']) code then types @ [''action'']
                   else types);
          types = (if rxTest (Words [''info'', ''warning'', ''error'', ''success'']) code then types @ [''feedback'']
                   else types)
      in types)"

definition extractIcons :: "string \<Rightarrow> IconElements" where
  "extractIcons code =
     \<lparr>IconElements.found = rxTest (Alts [Str ''icon'', Str ''Icon'', Seqs [Str ''Image'', LazyStar Dot, Str ''.'',
       Group 1 (Words [''svg'', ''png''])], Str ''/>'']) code,
      count = matchCount (Words [''icon'', ''Icon'']) code,
      hasInteraction = rxTest (Alts [Str ''IconButton'', Seqs [Str ''onPress'', Star Dot, Str ''icon'']]) code,
      types = detectIconTypes code\<rparr>"

definition detectInputTypes :: "string \<Rightarrow> string list" where
  "detectInputTypes code =
     (let types = [];
          types = (if rxTest (Words [''email'', ''Email'']) code then types @ [''email''] else types);
          types = (if rxTest (Words [''password'', ''Password'']) code then types @ [''password'']
                   else types);
          types = (if rxTest (Words [''number'', ''Number'', ''numeric'']) code then types @ [''number'']
                   else types);
          types = (if rxTest (Words [''search'', ''Search'']) code then types @ [''search''] else types);
          types = (if rxTest (Words [''date'', ''Date'', ''time'', ''Time'']) code then types @ [''date'']
                   else types);
          types = (if rxTest (Words [''textarea'', ''TextArea'', ''multiline'']) code then types @ [''textarea'']
                   else types)
      in types)"

definition extractInputs :: "string \<Rightarrow> InputElements" where
  "extractInputs code =
     \<lparr>InputElements.found = rxTest (Words [''input'', ''Input'', ''Field'', ''TextInput'']) code,
      count = matchCount (Words [''input'', ''Input'', ''Field'']) code,
      types = detectInputTypes code,
      hasValidation = rxTest (Words [''required'', ''validation'', ''error'']) code\<rparr>"

definition extractImages :: "string \<Rightarrow> ImageElements" where
  "extractImages code =
     \<lparr>ImageElements.found = rxTest (Words [''img'', ''Image'', ''picture'', ''src='']) code,
      count = matchCount (Words [''img'', ''Image'']) code,
      isDecorative = (\<not> rxTest (Words [''alt='', ''aria-label'']) code)\<rparr>"

definition extractNavigation :: "string \<Rightarrow> NavigationElements" where
  "extractNavigation code =
     \<lparr>NavigationElements.found = rxTest (Words [''Navigation'', ''Header'', ''AppBar'', ''nav'']) code,
      hasBackButton = rxTest (Alts [Str ''back'', Seqs [Str ''arrow'', Star Dot, Str ''left''], Str ''<'']) code,
      hasTitle = rxTest (Words [''title'', ''heading'']) code,
      hasActions = rxTest (Words [''action'', ''menu'', ''more'']) code\<rparr>"

definition extractLayouts :: "string \<Rightarrow> LayoutElements" where
  "extractLayouts code =
     (let fixedFooter =
            rxTest (Alts [Seqs [Str ''fixed'', Star Dot, Str ''footer''], Seqs [Str ''footer'',
              Star Dot, Str ''fixed''], Seqs [Str ''sticky'', Star Dot, Str ''bottom''],
              Seqs [Str ''position'', Star Dot, Str ''fixed'', Star Dot, Str ''bottom'']])
              code;
          fixedHeader =
            rxTest (Alts [Seqs [Str ''fixed'', Star Dot, Str ''header''], Seqs [Str ''header'',
              Star Dot, Str ''fixed''], Seqs [Str ''sticky'', Star Dot, Str ''top''],
              Seqs [Str ''position'', Star Dot, Str ''fixed'', Star Dot, Str ''top'']]) code;
          modal = rxTest (Words [''modal'', ''dialog'', ''overlay'', ''popup'', ''sheet'',
            ''bottomsheet'']) code;
          buttonInFooter =
            (fixedFooter \<and> rxTest (Alts [Seqs [Str ''footer'', Star Dot, Str ''button''], Seqs [Str ''button'',
              Star Dot, Str ''footer'']]) code);
          lt = (if fixedFooter \<and> buttonInFooter then ''fixed-footer-with-button''
                else if fixedFooter then ''fixed-footer''
                else if fixedHeader then ''fixed-header''
                else if modal then ''modal''
                else ''standard'')
      in \<lparr>LayoutElements.found = (fixedFooter \<or> fixedHeader \<or> modal),
          hasFixedFooter = fixedFooter,
          hasFixedHeader = fixedHeader,
          hasModal = modal,
          layoutType = lt,
          containsButtonInFooter = buttonInFooter\<rparr>)"

definition extractSecurity :: "string \<Rightarrow> SecurityElements" where
  "extractSecurity code =
     (let pinField = rxTest (Alts [Str ''pinfield'', Seqs [Str ''pin'', Star Dot, Str ''field''],
       Seqs [Str ''pin'', Star Dot, Str ''input''], Seqs [Str ''code'', Star Dot,
       Str ''input'']]) code;
          codeInput = rxTest (Alts [Seqs [Str ''code'', Star Dot, Str ''input''], Seqs [Str ''verification'',
            Star Dot, Str ''code''], Str ''otp'', Str ''pin'']) code;
          otpInput = rxTest (Alts [Str ''otp'', Seqs [Str ''one'', Star Dot, Str ''time'', Star Dot,
            Str ''password''], Seqs [Str ''verification'', Star Dot, Str ''code'']]) code;
          level = ''none'';
          level = (if pinField \<or> codeInput then ''medium'' else level);
          level = (if otpInput then ''high'' else level)
      in \<lparr>SecurityElements.found = (pinField \<or> codeInput \<or> otpInput),
          hasPinField = pinField,
          hasCodeInput = codeInput,
          hasOTPInput = otpInput,
          securityLevel = level\<rparr>)"

definition extractForms :: "string \<Rightarrow> FormElements" where
  "extractForms code =
     (let validation = rxTest (Words [''validation'', ''error'', ''validate'', ''required'', ''pattern'']) code;
          submitButton = rxTest (Words [''submit'', ''send'', ''save'', ''continue'', ''next'', ''confirm'']) code;
          types = [];
          types = (if rxTest (Alts [Seqs [Str ''text'', Star Dot, Str ''input''], Str ''textfield'']) code then types @ [''text'']
                   else types);
          types = (if rxTest (Alts [Seqs [Str ''email'', Star Dot, Str ''input''], Seqs [Str ''email'',
            Star Dot, Str ''field'']]) code then types @ [''email'']
                   else types);
          types = (if rxTest (Alts [Seqs [Str ''password'', Star Dot, Str ''input''], Seqs [Str ''password'',
            Star Dot, Str ''field'']]) code
                   then types @ [''password''] else types);
          types = (if rxTest (Alts [Seqs [Str ''number'', Star Dot, Str ''input''], Seqs [Str ''numeric'',
            Star Dot, Str ''field'']]) code then types @ [''number'']
                   else types);
          types = (if rxTest (Alts [Seqs [Str ''phone'', Star Dot, Str ''input''], Seqs [Str ''phone'',
            Star Dot, Str ''field'']]) code then types @ [''phone'']
                   else types);
          types = (if rxTest (Alts [Seqs [Str ''pin'', Star Dot, Str ''input''], Seqs [Str ''pin'', Star Dot,
            Str ''field''], Seqs [Str ''code'', Star Dot, Str ''input'']]) code
                   then types @ [''pin''] else types);
          st = (if length types > 3 then ''complex''
                else if length types > 1 then ''multi-field''
                else ''simple'')
      in \<lparr>FormElements.found = (length types > 0 \<or> submitButton),
          hasValidation = validation,
          fieldTypes = types,
          hasSubmitButton = submitButton,
          structure' = st\<rparr>)"

text \<open>
  \<open>extractSpacing\<close>. The values one expression finds are \<open>match[2]\<close> and \<open>match[3]\<close> of every
  match in which both are there and not empty (the last expression has two groups only,
  so it gives none).
\<close>

definition spacingMatchesOf :: "rx \<Rightarrow> string \<Rightarrow> (string \<times> string) list" where
  "spacingMatchesOf pattern code =
     concat (map (\<lambda>m.
        case (capture 2 m, capture 3 m) of
          (Some v, Some unit) \<Rightarrow> if v \<noteq> [] \<and> unit \<noteq> [] then [(v, unit)] else []
        | _ \<Rightarrow> [])
       (execAll pattern code))"

definition semanticMatchesOf :: "rx \<Rightarrow> string \<Rightarrow> string list" where
  "semanticMatchesOf pattern code =
     concat (map (\<lambda>m.
        case capture 1 m of
          Some semantic \<Rightarrow> if semantic \<noteq> [] then [semantic] else []
        | None \<Rightarrow> [])
       (execAll pattern code))"

definition extractSpacing :: "string \<Rightarrow> SpacingElements" where
  "extractSpacing code =
     (let types = [];
          types = (if rxTest (Str ''padding'') code then types @ [''padding''] else types);
          types = (if rxTest (Str ''margin'') code then types @ [''margin''] else types);
          types = (if rxTest (Str ''gap'') code then types @ [''gap''] else types);
          types = (if rxTest (Str ''space'') code then types @ [''space''] else types);
          spacingFound =
            spacingMatchesOf
              (Seqs [Str ''padding'', Star (Cls [Ch (CHR '':''), SpaceCls]),
                Star (Cls [WordCls, Ch (CHR ''-'')]), Star (Cls [SpaceCls]),
                Star (Cls [Ch (CHR '':''), SpaceCls]), Star (Cls [SpaceCls]),
                Group 1 (Opt (Cls [Ch (CHR 0x27), Ch (CHR 0x22), Ch (CHR 0x60)])),
                Group 2 (Seqs [Plus (Cls [DigitCls]), Opt (Seqs [Str ''.'',
                Plus (Cls [DigitCls])])]), Group 3 (Words [''px'', ''rem'', ''em'', ''%'',
                ''pt'', ''pc'', ''in'', ''cm'', ''mm'', ''ex'', ''ch'', ''vw'', ''vh'',
                ''vmin'', ''vmax'']), Backref 1])
              code
            @ spacingMatchesOf
              (Seqs [Str ''margin'', Star (Cls [Ch (CHR '':''), SpaceCls]),
                Star (Cls [WordCls, Ch (CHR ''-'')]), Star (Cls [SpaceCls]),
                Star (Cls [Ch (CHR '':''), SpaceCls]), Star (Cls [SpaceCls]),
                Group 1 (Opt (Cls [Ch (CHR 0x27), Ch (CHR 0x22), Ch (CHR 0x60)])),
                Group 2 (Seqs [Plus (Cls [DigitCls]), Opt (Seqs [Str ''.'',
                Plus (Cls [DigitCls])])]), Group 3 (Words [''px'', ''rem'', ''em'', ''%'',
                ''pt'', ''pc'', ''in'', ''cm'', ''mm'', ''ex'', ''ch'', ''vw'', ''vh'',
                ''vmin'', ''vmax'']), Backref 1])
              code
            @ spacingMatchesOf
              (Seqs [Str ''gap'', Star (Cls [Ch (CHR '':''), SpaceCls]),
                Star (Cls [SpaceCls]), Group 1 (Opt (Cls [Ch (CHR 0x27), Ch (CHR 0x22),
                Ch (CHR 0x60)])), Group 2 (Seqs [Plus (Cls [DigitCls]), Opt (Seqs [Str ''.'',
                Plus (Cls [DigitCls])])]), Group 3 (Words [''px'', ''rem'', ''em'', ''%'',
                ''pt'', ''pc'', ''in'', ''cm'', ''mm'', ''ex'', ''ch'', ''vw'', ''vh'',
                ''vmin'', ''vmax'']), Backref 1])
              code
            @ spacingMatchesOf
              (Seqs [Str ''space'', Star (Cls [Ch (CHR '':''), SpaceCls]),
                Star (Cls [SpaceCls]), Group 1 (Opt (Cls [Ch (CHR 0x27), Ch (CHR 0x22),
                Ch (CHR 0x60)])), Group 2 (Seqs [Plus (Cls [DigitCls]), Opt (Seqs [Str ''.'',
                Plus (Cls [DigitCls])])]), Group 3 (Words [''px'', ''rem'', ''em'', ''%'',
                ''pt'', ''pc'', ''in'', ''cm'', ''mm'', ''ex'', ''ch'', ''vw'', ''vh'',
                ''vmin'', ''vmax'']), Backref 1])
              code
            @ spacingMatchesOf (Seqs [WordBoundary, Group 1 (Plus (Cls [DigitCls])), Group 2 (Words [''px'',
              ''rem'', ''em'', ''%'']), WordBoundary]) code;
          values = map (\<lambda>(v, unit). v @ unit) spacingFound;
          units = uniqueInOrder (map snd spacingFound);
          explicit = (types \<noteq> [] \<or> spacingFound \<noteq> []);
          semantics =
            uniqueInOrder
              (semanticMatchesOf (Seqs [Str ''space'', Opt (Cls [Ch (CHR ''-''), Ch (CHR ''_'')]),
                Group 1 (Words [''xs'', ''sm'', ''md'', ''lg'', ''xl'', ''2xl'', ''3xl''])]) code
               @ semanticMatchesOf (Seqs [Str ''padding'', Opt (Cls [Ch (CHR ''-''), Ch (CHR ''_'')]),
                 Group 1 (Words [''small'', ''medium'', ''large'', ''extra''])]) code
               @ semanticMatchesOf (Seqs [Str ''margin'', Opt (Cls [Ch (CHR ''-''), Ch (CHR ''_'')]),
                 Group 1 (Words [''small'', ''medium'', ''large'', ''extra''])]) code
               @ semanticMatchesOf (Seqs [Str ''gap'', Opt (Cls [Ch (CHR ''-''), Ch (CHR ''_'')]),
                 Group 1 (Words [''tight'', ''normal'', ''loose''])]) code);
          uniqueValues = uniqueInOrder values;
          result = (if length uniqueValues = 1 then [''consistent'']
                    else if length uniqueValues \<le> 3 then [''design-system'']
                    else [''mixed'']);
          commonDesignSystemValues =
            [''8px'', ''16px'', ''24px'', ''32px'', ''4px'', ''12px'', ''20px'', ''40px''];
          result = (if list_ex (\<lambda>v. v \<in> set commonDesignSystemValues) values
                    then result @ [''design-system-aligned''] else result)
      in \<lparr>SpacingElements.found = explicit,
          hasExplicitSpacing = explicit,
          spacingTypes = uniqueInOrder types,
          spacingValues = uniqueInOrder values,
          spacingPatterns = result,
          detectedUnits = uniqueInOrder units,
          semanticSpacing = uniqueInOrder semantics\<rparr>)"

text \<open>
  \<open>extractFigmaComponentNames\<close>: the first group of every match of the five expressions,
  trimmed, kept when it has more than two characters; then without repetitions.
\<close>

definition namesOf :: "rx \<Rightarrow> string \<Rightarrow> string list" where
  "namesOf pattern code =
     concat (map (\<lambda>m.
        case capture 1 m of
          None \<Rightarrow> []
        | Some t \<Rightarrow> (let nm = trim t in if nm \<noteq> [] \<and> length nm > 2 then [nm] else []))
       (execAll pattern code))"

definition extractFigmaComponentNames :: "string \<Rightarrow> string list" where
  "extractFigmaComponentNames code =
     uniqueInOrder
       (namesOf (Seqs [Str ''data-name='', Cls [Ch (CHR 0x22), Ch (CHR 0x27)],
         Group 1 (Plus (NotCls [Ch (CHR 0x22), Ch (CHR 0x27)])), Cls [Ch (CHR 0x22),
         Ch (CHR 0x27)]]) code
        @ namesOf (Seqs [Str ''className='', Cls [Ch (CHR 0x22), Ch (CHR 0x27)],
          Group 1 (Seqs [Star (NotCls [Ch (CHR 0x22), Ch (CHR 0x27)]), Words [''Screen'',
          ''Feedback'', ''Button'', ''Card'', ''Modal''], Star (NotCls [Ch (CHR 0x22),
          Ch (CHR 0x27)])]), Cls [Ch (CHR 0x22), Ch (CHR 0x27)]])
            code
        @ namesOf (Seqs [Str ''id='', Cls [Ch (CHR 0x22), Ch (CHR 0x27)],
          Group 1 (Seqs [Star (NotCls [Ch (CHR 0x22), Ch (CHR 0x27)]), Words [''Screen'',
          ''Feedback'', ''Button'', ''Card'', ''Modal''], Star (NotCls [Ch (CHR 0x22),
          Ch (CHR 0x27)])]), Cls [Ch (CHR 0x22), Ch (CHR 0x27)]]) code
        @ namesOf (Seqs [Str ''/*'', Star (Cls [SpaceCls]),
          Group 1 (Seqs [Star (NotCls [Ch (CHR ''*'')]), Words [''Screen'', ''Feedback'',
          ''Button'', ''Card'', ''Modal''], Star (NotCls [Ch (CHR ''*'')])]),
          Star (Cls [SpaceCls]), Str ''*/'']) code
        @ namesOf (Seqs [WordBoundary, Group 1 (Seqs [Cls [Rng (CHR ''A'') (CHR ''Z'')],
          Star (Cls [Rng (CHR ''a'') (CHR ''z'')]), Words [''Screen'', ''Feedback'',
          ''Button'', ''Card'', ''Modal''], Opt (Cls [Rng (CHR ''A'') (CHR ''Z'')]),
          Star (Cls [Rng (CHR ''a'') (CHR ''z'')])]), WordBoundary])
            code)"

definition extractFeedback :: "string \<Rightarrow> FeedbackElements" where
  "extractFeedback code =
     (let figmaNames = extractFigmaComponentNames code;
          feedbackNames =
            filter (\<lambda>nm. rxTest (Words [''feedback'', ''screen'', ''error'', ''success'', ''info'',
              ''warning'']) nm)
              figmaNames;
          names = [] @ feedbackNames;
          feedbackType =
            (if rxTest (Str ''error'') code then ''error''
             else if rxTest (Str ''success'') code then ''success''
             else if rxTest (Str ''info'') code then ''info''
             else if rxTest (Str ''warning'') code then ''warning''
             else ''generic'');
          fnd =
            ((rxTest (Alts [Seqs [Str ''error'', Star Dot, Str ''feedback'', Star Dot,
              Str ''screen''], Seqs [Str ''feedback'', Star Dot, Str ''error'', Star Dot,
              Str ''screen''], Seqs [Str ''error'', Star Dot, Str ''screen'']]) code
              \<or> rxTest (Alts [Seqs [Str ''success'', Star Dot, Str ''feedback'', Star Dot,
                Str ''screen''], Seqs [Str ''feedback'', Star Dot, Str ''success'', Star Dot,
                Str ''screen''], Seqs [Str ''success'', Star Dot, Str ''screen'']])
                   code
              \<or> rxTest (Alts [Seqs [Str ''info'', Star Dot, Str ''feedback'', Star Dot,
                Str ''screen''], Seqs [Str ''feedback'', Star Dot, Str ''info'', Star Dot,
                Str ''screen''], Seqs [Str ''info'', Star Dot, Str ''screen'']]) code
              \<or> rxTest (Alts [Seqs [Str ''warning'', Star Dot, Str ''feedback'', Star Dot,
                Str ''screen''], Seqs [Str ''feedback'', Star Dot, Str ''warning'', Star Dot,
                Str ''screen''], Seqs [Str ''warning'', Star Dot, Str ''screen'']])
                   code
              \<or> rxTest (Alts [Seqs [Str ''feedback'', Star Dot, Str ''screen''],
                Seqs [Str ''screen'', Star Dot, Str ''feedback'']]) code)
             \<or> length feedbackNames > 0)
      in \<lparr>FeedbackElements.found = fnd,
          type = feedbackType,
          hasScreen = rxTest (Str ''screen'') code,
          hasIcon = rxTest (Alts [Str ''icon'', Seqs [Str ''image'', Star Dot, Str ''error''],
            Seqs [Str ''image'', Star Dot, Str ''success''], Seqs [Str ''image'', Star Dot,
            Str ''info''], Seqs [Str ''image'', Star Dot, Str ''warning'']]) code,
          hasActions = rxTest (Words [''button'', ''action'', ''retry'', ''close'', ''dismiss'', ''ok'']) code,
          detectedNames = names\<rparr>)"

text \<open>
  \<open>normalizeComponentName\<close>: white space, hyphens and underscores are removed, and the first
  character becomes a capital. \<open>toUpperCase\<close> of one character is \<open>toUpperChar\<close>. (The three
  letters of the range whose capital lies outside it are left as they are.)
\<close>

definition upperText :: "string \<Rightarrow> string" where
  "upperText s = map toUpperChar s"

definition normalizeComponentName :: "string \<Rightarrow> string" where
  "normalizeComponentName nm =
     (let s = filter (\<lambda>c. \<not> (isWhiteSpace c \<or> c = CHR ''-'' \<or> c = CHR ''_'')) nm
      in case s of
           [] \<Rightarrow> []
         | c # cs \<Rightarrow> if isLineTerminator c then c # cs else toUpperChar c # cs)"

text \<open>
  \<open>generateNameVariations\<close>: the name, and its forms without blanks, in camel case, in
  Pascal case, in kebab case and in snake case, each added when it differs from the name;
  then without repetitions.
\<close>

definition generateNameVariations :: "string \<Rightarrow> string list" where
  "generateNameVariations originalName0 =
     (let variations = [originalName0];
          noSpaces = replaceAll (Plus (Cls [SpaceCls])) (\<lambda>m. []) originalName0;
          variations = (if noSpaces \<noteq> originalName0 then variations @ [noSpaces]
                        else variations);
          camelCase =
            replaceAll (Seqs [Plus (Cls [SpaceCls]), Group 1 (Dot)]) (\<lambda>m. upperText (the_default [] (capture 1 m)))
              originalName0;
          variations = (if camelCase \<noteq> originalName0 then variations @ [camelCase]
                        else variations);
          pascalCase =
            replaceAll (Plus (Cls [SpaceCls])) (\<lambda>m. [])
              (replaceAll (Seqs [Alts [Bol, Plus (Cls [SpaceCls])], Group 1 (Dot)]) (\<lambda>m. upperText (the_default [] (capture 1 m)))
                 originalName0);
          variations = (if pascalCase \<noteq> originalName0 then variations @ [pascalCase]
                        else variations);
          kebabCase = replaceAll (Plus (Cls [SpaceCls])) (\<lambda>m. ''-'') (toLowerCase originalName0);
          variations = (if kebabCase \<noteq> originalName0 then variations @ [kebabCase]
                        else variations);
          snakeCase = replaceAll (Plus (Cls [SpaceCls])) (\<lambda>m. ''_'') (toLowerCase originalName0);
          variations = (if snakeCase \<noteq> originalName0 then variations @ [snakeCase]
                        else variations)
      in uniqueInOrder variations)"

text \<open>
  \<open>analyzeFigmaComponentName\<close>: the type of the first pattern that the name matches, with
  its confidence; a name with no type and fewer than three characters gives nothing.
\<close>

definition typePatterns :: "(rx \<times> string \<times> real) list" where
  "typePatterns =
     [((Alts [Seqs [Str ''feedback'', Star Dot, Str ''screen''], Seqs [Str ''screen'',
       Star Dot, Str ''feedback''], Seqs [Str ''error'', Star Dot, Str ''screen''],
       Seqs [Str ''success'', Star Dot, Str ''screen'']]),
       ''feedback'', 0.9),
      ((Words [''button'', ''btn'']), ''button'', 0.8),
      ((Str ''card''), ''card'', 0.7),
      ((Words [''modal'', ''dialog'']), ''modal'', 0.8),
      ((Words [''text'', ''title'', ''heading'']), ''text'', 0.6),
      ((Words [''navigation'', ''nav'', ''header'']), ''navigation'', 0.7),
      ((Words [''input'', ''field'', ''form'']), ''input'', 0.7)]"

definition analyzeFigmaComponentName :: "string \<Rightarrow> DetectedFigmaComponent option" where
  "analyzeFigmaComponentName originalName0 =
     (let normalized = normalizeComponentName originalName0;
          vars = generateNameVariations originalName0;
          (ctype, conf) =
            (case find (\<lambda>(pattern, t, c). rxTest pattern originalName0) typePatterns of
               Some (pattern, t, c) \<Rightarrow> (t, c)
             | None \<Rightarrow> (''unknown'', 0.3))
      in if ctype = ''unknown'' \<and> length originalName0 < 3 then None
         else Some \<lparr>DetectedFigmaComponent.originalName = originalName0,
                    normalizedName = normalized,
                    componentType = ctype,
                    confidenceScore = conf,
                    variations = vars\<rparr>)"

definition extractFigmaComponents :: "string \<Rightarrow> FigmaComponentElements" where
  "extractFigmaComponents code =
     (let detected =
            concat (map (\<lambda>nm. case analyzeFigmaComponentName nm of
                                  None \<Rightarrow> []
                                | Some analysis \<Rightarrow> [analysis])
                      (extractFigmaComponentNames code))
      in \<lparr>FigmaComponentElements.found = (length detected > 0),
          detectedComponents = detected\<rparr>)"

definition extractUIElements :: "string \<Rightarrow> UIElements" where
  "extractUIElements code =
     \<lparr>UIElements.buttons = extractButtons code,
      texts = extractTexts code,
      containers = extractContainers code,
      lists = extractLists code,
      icons = extractIcons code,
      inputs = extractInputs code,
      images = extractImages code,
      navigation = extractNavigation code,
      layouts = extractLayouts code,
      security = extractSecurity code,
      forms = extractForms code,
      spacing = extractSpacing code,
      feedback = extractFeedback code,
      figmaComponents = extractFigmaComponents code\<rparr>"






section \<open>Properties of the typography analyzer\<close>

lemma outsideAllRanges_iff:
  "outsideAllRanges s \<longleftrightarrow> s < 12 \<or> (48 < s \<and> s < 56) \<or> 64 < s"
  unfolding outsideAllRanges_def TEXT_SCALE_MAPPING_def inRange_def
  by (simp add: not_le) linarith

lemma determineTextLevel_cases:
  "determineTextLevel s =
     (if 56 \<le> s then ''text1'' else if 40 \<le> s then ''text2'' else if 32 \<le> s then ''text3''
      else if 28 \<le> s then ''text4'' else if 24 \<le> s then ''text5'' else if 20 \<le> s then ''text6''
      else if 18 \<le> s then ''text7'' else if 16 \<le> s then ''text8'' else if 14 \<le> s then ''text9''
      else ''text10'')"
  unfolding determineTextLevel_def TEXT_SCALE_MAPPING_def inRange_def
  by (simp add: not_le)

lemma determineTextLevel_outside:
  assumes "outsideAllRanges s"
  shows "determineTextLevel s = (if 64 < s then ''text1'' else if 48 < s then ''text2'' else ''text10'')"
proof -
  from assms have "s < 12 \<or> (48 < s \<and> s < 56) \<or> 64 < s" by (simp add: outsideAllRanges_iff)
  then show ?thesis unfolding determineTextLevel_cases by auto
qed

lemma levelNumber_vals:
  "levelNumber ''text1'' = 1" "levelNumber ''text2'' = 2" "levelNumber ''text10'' = 10"
  by (simp_all add: levelNumber_def TEXT_SCALE_MAPPING_def)

lemma determineTextLevel_key: "determineTextLevel s \<in> set (map fst TEXT_SCALE_MAPPING)"
  unfolding determineTextLevel_cases by (simp add: TEXT_SCALE_MAPPING_def)

text \<open>
  Claim C5. \<open>determineTextLevel\<close> yields one of the ten levels \<open>text1\<close> .. \<open>text10\<close> for
  every size. For a size outside every range of the table the level is the one of the
  fallback staircase, and on such sizes the function is a non-increasing step function: a
  larger size has the same or a lower-numbered level.
\<close>

theorem determineTextLevel_total_and_fallback_monotone:
  "determineTextLevel s \<in> set (map fst TEXT_SCALE_MAPPING)
   \<and> length (map fst TEXT_SCALE_MAPPING) = 10
   \<and> (outsideAllRanges s \<longrightarrow>
        determineTextLevel s =
          (if s \<ge> 56 then ''text1'' else if s \<ge> 40 then ''text2'' else ''text10''))
   \<and> (outsideAllRanges s1 \<and> outsideAllRanges s2 \<and> s1 \<le> s2 \<longrightarrow>
        levelNumber (determineTextLevel s2) \<le> levelNumber (determineTextLevel s1))"
proof (intro conjI impI)
  show "determineTextLevel s \<in> set (map fst TEXT_SCALE_MAPPING)" by (rule determineTextLevel_key)
  show "length (map fst TEXT_SCALE_MAPPING) = 10" by (simp add: TEXT_SCALE_MAPPING_def)
next
  assume "outsideAllRanges s"
  then show "determineTextLevel s =
          (if s \<ge> 56 then ''text1'' else if s \<ge> 40 then ''text2'' else ''text10'')"
    by (auto simp: determineTextLevel_outside outsideAllRanges_iff)
next
  assume a: "outsideAllRanges s1 \<and> outsideAllRanges s2 \<and> s1 \<le> s2"
  then have 1: "determineTextLevel s1 = (if 64 < s1 then ''text1'' else if 48 < s1 then ''text2'' else ''text10'')"
    and 2: "determineTextLevel s2 = (if 64 < s2 then ''text1'' else if 48 < s2 then ''text2'' else ''text10'')"
    by (simp_all add: determineTextLevel_outside)
  from a have "s1 \<le> s2" by simp
  then show "levelNumber (determineTextLevel s2) \<le> levelNumber (determineTextLevel s1)"
    unfolding 1 2 by (auto simp: levelNumber_vals)
qed

theorem determineTextLevel_total_and_fallback_monotone_witness:
  "outsideAllRanges 50 \<and> outsideAllRanges 70 \<and> (50::real) \<le> 70
   \<and> determineTextLevel 50 = ''text2'' \<and> determineTextLevel 70 = ''text1''
   \<and> levelNumber (determineTextLevel 70) \<le> levelNumber (determineTextLevel 50)"
proof -
  have h: "outsideAllRanges 50 \<and> outsideAllRanges 70 \<and> (50::real) \<le> 70"
    by (simp add: outsideAllRanges_iff)
  from determineTextLevel_total_and_fallback_monotone [of 50 50 70] h
  show ?thesis by (simp add: determineTextLevel_cases)
qed

lemma map_of_level_ex: "\<exists>cfg. map_of TEXT_SCALE_MAPPING (determineTextLevel s) = Some cfg"
  using determineTextLevel_key [of s] by (metis map_of_eq_None_iff not_Some_eq set_map)

lemma strictly_inside_all:
  "list_all (\<lambda>(l, c). minSize c < s \<and> s < maxSize c \<longrightarrow>
       determineTextLevel s = l \<and> map_of TEXT_SCALE_MAPPING l = Some c) TEXT_SCALE_MAPPING"
  unfolding determineTextLevel_cases by (simp add: TEXT_SCALE_MAPPING_def)

lemma strictly_inside:
  assumes "(level, cfg) \<in> set TEXT_SCALE_MAPPING" "minSize cfg < s" "s < maxSize cfg"
  shows "determineTextLevel s = level \<and> map_of TEXT_SCALE_MAPPING level = Some cfg"
  using strictly_inside_all [of s] assms unfolding list_all_iff by blast

text \<open>
  Claim C4. The confidence of the typography analysis is 0.5, plus 0.3 when the size lies
  in the range of the chosen level, plus 0.2 when the resolved weight is one of the weights
  of that level, capped at 1.0; the chosen level is always a level of the table, so the
  analysis never fails. Consequently a size strictly inside the range of a level of the
  table, with a weight that this level allows, is given that level and a confidence of at
  least 0.8.
\<close>

theorem typography_confidence:
  "(\<exists>cfg. map_of TEXT_SCALE_MAPPING (determineTextLevel fontSize) = Some cfg
      \<and> analyzeTypography fontSize fontWeight cssText elementHtml =
          Inr \<lparr>textLevel = determineTextLevel fontSize,
               weight = determineWeight fontWeight (cssText @ elementHtml),
               sizePx = fontSize,
               typographyAnalysis.confidence = min 1.0
                 (0.5 + (if minSize cfg \<le> fontSize \<and> fontSize \<le> maxSize cfg then 0.3 else 0)
                      + (if determineWeight fontWeight (cssText @ elementHtml) \<in> set (weights cfg)
                         then 0.2 else 0))\<rparr>)
   \<and> ((level, config) \<in> set TEXT_SCALE_MAPPING
        \<and> minSize config < fontSize \<and> fontSize < maxSize config
        \<and> determineWeight fontWeight (cssText @ elementHtml) \<in> set (weights config)
      \<longrightarrow> (\<exists>r. analyzeTypography fontSize fontWeight cssText elementHtml = Inr r
                \<and> textLevel r = level \<and> typographyAnalysis.confidence r \<ge> 0.8))"
proof (intro conjI impI)
  obtain cfg where c: "map_of TEXT_SCALE_MAPPING (determineTextLevel fontSize) = Some cfg"
    using map_of_level_ex by blast
  show "\<exists>cfg. map_of TEXT_SCALE_MAPPING (determineTextLevel fontSize) = Some cfg
      \<and> analyzeTypography fontSize fontWeight cssText elementHtml =
          Inr \<lparr>textLevel = determineTextLevel fontSize,
               weight = determineWeight fontWeight (cssText @ elementHtml),
               sizePx = fontSize,
               typographyAnalysis.confidence = min 1.0
                 (0.5 + (if minSize cfg \<le> fontSize \<and> fontSize \<le> maxSize cfg then 0.3 else 0)
                      + (if determineWeight fontWeight (cssText @ elementHtml) \<in> set (weights cfg)
                         then 0.2 else 0))\<rparr>"
    apply (rule exI [of _ cfg])
    apply (simp add: c analyzeTypography_def calculateTypographyConfidence_def Let_def inRange_def)
    done
next
  assume a: "(level, config) \<in> set TEXT_SCALE_MAPPING
        \<and> minSize config < fontSize \<and> fontSize < maxSize config
        \<and> determineWeight fontWeight (cssText @ elementHtml) \<in> set (weights config)"
  then have l: "determineTextLevel fontSize = level" and m: "map_of TEXT_SCALE_MAPPING level = Some config"
    using strictly_inside by blast+
  from a show "\<exists>r. analyzeTypography fontSize fontWeight cssText elementHtml = Inr r
                \<and> textLevel r = level \<and> typographyAnalysis.confidence r \<ge> 0.8"
    by (simp add: analyzeTypography_def calculateTypographyConfidence_def Let_def inRange_def l m)
qed

theorem typography_confidence_witness:
  "(''text4'', \<lparr>minSize = 28, maxSize = 32, weights = [''light'', ''regular'', ''medium'']\<rparr>)
      \<in> set TEXT_SCALE_MAPPING
   \<and> determineWeight ''400'' (''font-size: 30px; font-weight: 400'' @ '''') = ''regular''
   \<and> (\<exists>r. analyzeTypography 30 ''400'' ''font-size: 30px; font-weight: 400'' '''' = Inr r
         \<and> textLevel r = ''text4'' \<and> typographyAnalysis.confidence r \<ge> 0.8)"
proof -
  let ?cfg = "\<lparr>minSize = 28, maxSize = 32, weights = [''light'', ''regular'', ''medium'']\<rparr>"
  have w: "determineWeight ''400'' (''font-size: 30px; font-weight: 400'' @ '''') = ''regular''"
    by code_simp
  have t: "(''text4'', ?cfg) \<in> set TEXT_SCALE_MAPPING"
    by (simp add: TEXT_SCALE_MAPPING_def)
  have h: "(''text4'', ?cfg) \<in> set TEXT_SCALE_MAPPING
        \<and> minSize ?cfg < 30 \<and> 30 < maxSize ?cfg
        \<and> determineWeight ''400'' (''font-size: 30px; font-weight: 400'' @ '''') \<in> set (weights ?cfg)"
    unfolding w using t by simp
  note c = typography_confidence [of 30 "''400''" "''font-size: 30px; font-weight: 400''" "''''"
      "''text4''" ?cfg, THEN conjunct2, THEN mp, OF h]
  show ?thesis using w t c by (intro conjI)
qed

section \<open>Properties of the component mapper\<close>














lemma notin_image_iff: "(\<forall>y\<in>A. f y \<noteq> a) \<longleftrightarrow> a \<notin> f ` A"
  by auto

lemma findIndex_append_first:
  "findIndex p (pre @ x # rest) = Some (length pre) \<longleftrightarrow> (\<forall>y\<in>set pre. \<not> p y) \<and> p x"
proof (induction pre)
  case Nil
  show ?case by (cases "findIndex p rest") auto
next
  case (Cons a pre)
  show ?case
  proof (cases "p a")
    case True
    then show ?thesis by simp
  next
    case False
    with Cons show ?thesis by (cases "findIndex p (pre @ x # rest)") auto
  qed
qed

lemma firstBy_gen:
  "map snd (filter (\<lambda>(index, s). Some index = findIndex (\<lambda>t. k t = k s) (pre @ xs))
       (enumerate (length pre) xs))
   = filter (\<lambda>s. k s \<notin> k ` set pre) (dedupBy k xs)"
proof (induction xs arbitrary: pre)
  case Nil
  show ?case by simp
next
  case (Cons x xs)
  have ih: "map snd (filter (\<lambda>(index, s). Some index = findIndex (\<lambda>t. k t = k s) (pre @ x # xs))
       (enumerate (Suc (length pre)) xs))
   = filter (\<lambda>s. k s \<notin> k ` set (pre @ [x])) (dedupBy k xs)"
    using Cons [of "pre @ [x]"] by simp
  have hd: "(Some (length pre) = findIndex (\<lambda>t. k t = k x) (pre @ x # xs)) \<longleftrightarrow> k x \<notin> k ` set pre"
  proof -
    have "(Some (length pre) = findIndex (\<lambda>t. k t = k x) (pre @ x # xs))
      \<longleftrightarrow> (findIndex (\<lambda>t. k t = k x) (pre @ x # xs) = Some (length pre))"
      by (rule eq_commute)
    also have "\<dots> \<longleftrightarrow> (\<forall>y\<in>set pre. k y \<noteq> k x)"
      by (simp add: findIndex_append_first)
    also have "\<dots> \<longleftrightarrow> k x \<notin> k ` set pre"
      by (rule notin_image_iff)
    finally show ?thesis .
  qed
  have flt: "filter (\<lambda>s. k s \<notin> k ` set pre) (filter (\<lambda>y. k y \<noteq> k x) (dedupBy k xs))
      = filter (\<lambda>s. k s \<notin> k ` set (pre @ [x])) (dedupBy k xs)"
    by (auto intro: filter_cong)
  have "map snd (filter (\<lambda>(index, s). Some index = findIndex (\<lambda>t. k t = k s) (pre @ x # xs))
       (enumerate (length pre) (x # xs)))
     = (if k x \<notin> k ` set pre then [x] else [])
       @ filter (\<lambda>s. k s \<notin> k ` set (pre @ [x])) (dedupBy k xs)"
    using hd by (simp add: ih del: set_append)
  also have "\<dots> = filter (\<lambda>s. k s \<notin> k ` set pre) (dedupBy k (x # xs))"
    using flt by simp
  finally show ?case .
qed

lemma firstByName_dedupBy: "firstByName xs = dedupBy suggestionName xs"
proof -
  have "firstByName xs = map snd (filter (\<lambda>(index, s).
           Some index = findIndex (\<lambda>t. suggestionName t = suggestionName s) ([] @ xs))
         (enumerate (length ([] :: ComponentSuggestion list)) xs))"
    by (simp add: firstByName_def suggestionName_def)
  also have "\<dots> = filter (\<lambda>s. suggestionName s \<notin> suggestionName ` set []) (dedupBy suggestionName xs)"
    by (rule firstBy_gen)
  finally show ?thesis by simp
qed

lemma set_dedupBy: "set (dedupBy k xs) \<subseteq> set xs"
  by (induction xs) auto

lemma keys_dedupBy: "k ` set (dedupBy k xs) = k ` set xs"
proof (induction xs)
  case Nil
  show ?case by simp
next
  case (Cons x xs)
  have "k ` set (filter (\<lambda>y. k y \<noteq> k x) (dedupBy k xs)) = k ` set (dedupBy k xs) - {k x}"
    by auto
  with Cons show ?case by simp
qed


lemma find_dedupBy: "r \<in> set (dedupBy k xs) \<Longrightarrow> find (\<lambda>s. k s = k r) xs = Some r"
  by (induction xs) auto



lemma findMisticaEquivalents_Some:
  assumes "collectSuggestions els st pats (Some catalog) = Inr all"
  shows "findMisticaEquivalents els st pats (Some catalog)
         = Inr (take 10 (sortByScoreDesc (dedupBy suggestionName all)))"
  by (simp add: findMisticaEquivalents_def assms bindE_def firstByName_dedupBy)

lemma bindE_simps: "bindE (Inl e) f = Inl e" "bindE (Inr x) f = f x"
  by (simp_all add: bindE_def)

lemma forEachE_Inl: "xs \<noteq> [] \<Longrightarrow> forEachE (\<lambda>x s. Inl e) xs s = Inl e"
  by (cases xs) simp_all

lemma if_nonempty: "d \<noteq> [] \<Longrightarrow> (if length c > 0 then c else d) \<noteq> []"
  by auto

lemma uniqueInOrder_Nil_iff: "uniqueInOrder xs = [] \<longleftrightarrow> xs = []"
  by (cases xs) simp_all

lemma if_unique_nonempty: "d \<noteq> [] \<Longrightarrow> (if length c > 0 then uniqueInOrder c else d) \<noteq> []"
  by (auto simp: uniqueInOrder_Nil_iff)

lemma getButtonComponents_nonempty: "getButtonComponents b \<noteq> []"
  unfolding getButtonComponents_def Let_def by (rule if_nonempty) simp

lemma getTextComponents_nonempty: "getTextComponents t \<noteq> []"
  unfolding getTextComponents_def Let_def by (rule if_nonempty) simp

lemma getListComponents_nonempty: "getListComponents l st \<noteq> []"
  unfolding getListComponents_def Let_def by (rule if_nonempty) simp

lemma getContainerComponents_nonempty: "getContainerComponents c st sp \<noteq> []"
  unfolding getContainerComponents_def Let_def by (rule if_unique_nonempty) simp

lemma getIconComponents_nonempty: "getIconComponents i \<noteq> []"
  by (simp add: getIconComponents_def)

lemma getInputComponents_nonempty: "getInputComponents i \<noteq> []"
  unfolding getInputComponents_def Let_def by (rule if_nonempty) simp

lemma getNavigationComponents_nonempty: "getNavigationComponents n \<noteq> []"
  by (simp add: getNavigationComponents_def Let_def)

lemmas components_nonempty = getButtonComponents_nonempty getTextComponents_nonempty
  getListComponents_nonempty getContainerComponents_nonempty getIconComponents_nonempty
  getInputComponents_nonempty getNavigationComponents_nonempty

lemma mappings_None:
  assumes "list_all (\<lambda>(t, m). misticaComponents m \<noteq> []) es"
  shows "forEachE (\<lambda>(t, m) s. if detected m
            then forEachE (\<lambda>x s. Inl TypeError) (misticaComponents m) s else Inr s) es s
         = (if list_ex (\<lambda>(t, m). detected m) es then Inl TypeError else Inr s)"
  using assms
proof (induction es arbitrary: s)
  case Nil
  show ?case by simp
next
  case (Cons a es)
  obtain t m where a: "a = (t, m)" by (cases a)
  with Cons.prems have ne: "misticaComponents m \<noteq> []" and rest: "list_all (\<lambda>(t, m). misticaComponents m \<noteq> []) es"
    by simp_all
  show ?case
    using Cons.IH [OF rest] by (simp add: a forEachE_Inl [OF ne])
qed

lemma entries_nonempty:
  "list_all (\<lambda>(t, m). misticaComponents m \<noteq> []) (entries (createElementMappings els st pats))"
  by (simp add: entries_def createElementMappings_def components_nonempty)

lemma entries_detected:
  "list_ex (\<lambda>(t, m). detected m) (entries (createElementMappings els st pats))
   \<longleftrightarrow> ButtonElements.found (UIElements.buttons els)
      \<or> TextElements.found (UIElements.texts els)
      \<or> ListElements.found (UIElements.lists els)
      \<or> ContainerElements.found (UIElements.containers els)
      \<or> IconElements.found (UIElements.icons els)
      \<or> InputElements.found (UIElements.inputs els)
      \<or> NavigationElements.found (UIElements.navigation els)"
  by (simp add: entries_def createElementMappings_def)

lemma patternSuggestions_None:
  "names \<noteq> [] \<Longrightarrow> patternSuggestions None names r sc s = Inl TypeError"
  by (simp add: patternSuggestions_def findE_def bindE_simps forEachE_Inl)

lemma getPatternBasedSuggestions_None:
  "getPatternBasedSuggestions pats None =
     (if listPattern pats \<or> cardPattern pats \<or> formPattern pats
         \<or> navigationPattern pats \<or> modalPattern pats
      then Inl TypeError else Inr [])"
  by (simp add: getPatternBasedSuggestions_def patternSuggestions_None bindE_simps)

lemma collectSuggestions_None:
  "collectSuggestions els st pats None = (if readsCatalog els pats then Inl TypeError else Inr [])"
proof -
  have inner: "(\<lambda>(elementType, mapping) suggestions.
              if detected mapping then
                forEachE (\<lambda>componentName suggestions.
                   bindE (findE None
                            (\<lambda>c. toLowerCase (name c) = toLowerCase componentName))
                     (\<lambda>found. case found of
                        None \<Rightarrow> Inr suggestions
                      | Some c \<Rightarrow>
                          Inr (suggestions @
                               [\<lparr>component = c, reason = ElementMapping.reason mapping,
                                 score = calculateIntelligentScore elementType c
                                   \<lparr>elements = els, structure' = st, patterns = pats\<rparr>
                                   mapping\<rparr>])))
                  (misticaComponents mapping) suggestions
              else Inr suggestions)
       = (\<lambda>(t, m) s. if detected m
            then forEachE (\<lambda>x s. Inl TypeError) (misticaComponents m) s else Inr s)"
    by (simp add: findE_def bindE_simps fun_eq_iff cong: if_cong)
  have loop: "\<And>s. forEachE (\<lambda>(elementType, mapping) suggestions.
              if detected mapping then
                forEachE (\<lambda>componentName suggestions.
                   bindE (findE None
                            (\<lambda>c. toLowerCase (name c) = toLowerCase componentName))
                     (\<lambda>found. case found of
                        None \<Rightarrow> Inr suggestions
                      | Some c \<Rightarrow>
                          Inr (suggestions @
                               [\<lparr>component = c, reason = ElementMapping.reason mapping,
                                 score = calculateIntelligentScore elementType c
                                   \<lparr>elements = els, structure' = st, patterns = pats\<rparr>
                                   mapping\<rparr>])))
                  (misticaComponents mapping) suggestions
              else Inr suggestions)
            (entries (createElementMappings els st pats)) s
       = (if list_ex (\<lambda>(t, m). detected m) (entries (createElementMappings els st pats))
          then Inl TypeError else Inr s)"
    unfolding inner by (rule mappings_None [OF entries_nonempty])
  show ?thesis
    unfolding collectSuggestions_def loop entries_detected getPatternBasedSuggestions_None
    by (simp add: findComponentsByPattern_def filterE_def bindE_simps readsCatalog_def)
qed

lemma firstByName_Nil: "firstByName [] = []"
  by (simp add: firstByName_def)

lemma findMisticaEquivalents_None:
  "findMisticaEquivalents els st pats None = (if readsCatalog els pats then Inl TypeError else Inr [])"
  by (simp add: findMisticaEquivalents_def collectSuggestions_None bindE_simps firstByName_Nil
      sortByScoreDesc_def)



text \<open>
  Claim C3, as the code has it. When several collected suggestions have the same component
  name, the mapper keeps the one collected first (special cases, then element mappings,
  then pattern suggestions), whatever the scores: the order of the operations is collect
  all, drop the later duplicates of a name, sort descending by score, cut to 10. Every
  kept suggestion is the first collected one of its name, and every collected name has a
  kept suggestion before the cut.
\<close>

theorem findMisticaEquivalents_keeps_first_collected:
  assumes "collectSuggestions els st pats (Some catalog) = Inr all"
  shows "findMisticaEquivalents els st pats (Some catalog)
           = Inr (take 10 (sortByScoreDesc (firstByName all)))
     \<and> (\<forall>r \<in> set (take 10 (sortByScoreDesc (firstByName all))).
           find (\<lambda>s. name (component s) = name (component r)) all = Some r)
     \<and> (\<forall>s \<in> set all. \<exists>r \<in> set (firstByName all).
           name (component r) = name (component s))"
proof (intro conjI ballI)
  show "findMisticaEquivalents els st pats (Some catalog)
           = Inr (take 10 (sortByScoreDesc (firstByName all)))"
    using findMisticaEquivalents_Some [OF assms] by (simp add: firstByName_dedupBy)
next
  fix r assume "r \<in> set (take 10 (sortByScoreDesc (firstByName all)))"
  then have "r \<in> set (sortByScoreDesc (firstByName all))"
    by (rule in_set_takeD)
  then have "r \<in> set (dedupBy suggestionName all)"
    by (simp add: sortByScoreDesc_def firstByName_dedupBy)
  then have "find (\<lambda>s. suggestionName s = suggestionName r) all = Some r"
    by (rule find_dedupBy)
  then show "find (\<lambda>s. name (component s) = name (component r)) all = Some r"
    by (simp add: suggestionName_def)
next
  fix s assume "s \<in> set all"
  then have "suggestionName s \<in> suggestionName ` set (dedupBy suggestionName all)"
    by (simp add: keys_dedupBy)
  then obtain r where "r \<in> set (dedupBy suggestionName all)" "suggestionName r = suggestionName s"
    by (auto simp: image_iff)
  then show "\<exists>r \<in> set (firstByName all). name (component r) = name (component s)"
    unfolding firstByName_dedupBy suggestionName_def by blast
qed

theorem findMisticaEquivalents_keeps_first_collected_witness:
  "collectSuggestions footerButtonElements footerButtonStructure footerButtonPatterns
      (Some [buttonPrimary])
     = Inr [\<lparr>component = buttonPrimary, reason = FooterLayoutReason, score = 95\<rparr>,
            \<lparr>component = buttonPrimary, reason = ButtonActionsReason, score = 125\<rparr>]
   \<and> findMisticaEquivalents footerButtonElements footerButtonStructure footerButtonPatterns
      (Some [buttonPrimary])
     = Inr (take 10 (sortByScoreDesc (firstByName
         [\<lparr>component = buttonPrimary, reason = FooterLayoutReason, score = 95\<rparr>,
          \<lparr>component = buttonPrimary, reason = ButtonActionsReason, score = 125\<rparr>])))"
proof -
  have c: "collectSuggestions footerButtonElements footerButtonStructure footerButtonPatterns
      (Some [buttonPrimary])
     = Inr [\<lparr>component = buttonPrimary, reason = FooterLayoutReason, score = 95\<rparr>,
            \<lparr>component = buttonPrimary, reason = ButtonActionsReason, score = 125\<rparr>]"
    by code_simp
  from findMisticaEquivalents_keeps_first_collected [OF c] c show ?thesis by blast
qed

text \<open>
  Claim C3 as stated fails: for a fixed footer with a button and the catalog that holds
  \<open>ButtonPrimary\<close>, the special case gives \<open>ButtonPrimary\<close> the score 95, the button mapping
  gives it 125, and the mapper returns the suggestion with 95.
\<close>

theorem findMisticaEquivalents_highest_not_kept:
  "collectSuggestions footerButtonElements footerButtonStructure footerButtonPatterns
      (Some [buttonPrimary])
     = Inr [\<lparr>component = buttonPrimary, reason = FooterLayoutReason, score = 95\<rparr>,
            \<lparr>component = buttonPrimary, reason = ButtonActionsReason, score = 125\<rparr>]
   \<and> findMisticaEquivalents footerButtonElements footerButtonStructure footerButtonPatterns
      (Some [buttonPrimary])
     = Inr [\<lparr>component = buttonPrimary, reason = FooterLayoutReason, score = 95\<rparr>]"
  by code_simp

text \<open>
  Claim C9, as the code has it. The mapper does not check the catalog. With a \<open>null\<close> or
  \<open>undefined\<close> catalog it raises a \<open>TypeError\<close> exactly when it comes to read the catalog
  (a fixed footer with a button, a PIN or code input, a detected family among buttons,
  texts, lists, containers, icons, inputs and navigation, or one of the list, card, form,
  navigation and modal patterns); on every other input it returns the empty list.
\<close>

theorem findMisticaEquivalents_null_catalog:
  "findMisticaEquivalents els st pats None
     = (if readsCatalog els pats then Inl TypeError else Inr [])"
  by (rule findMisticaEquivalents_None)

theorem findMisticaEquivalents_null_catalog_witness:
  "readsCatalog footerButtonElements footerButtonPatterns
   \<and> findMisticaEquivalents footerButtonElements footerButtonStructure footerButtonPatterns None
       = Inl TypeError"
proof -
  have r: "readsCatalog footerButtonElements footerButtonPatterns" by code_simp
  from findMisticaEquivalents_null_catalog
         [of footerButtonElements footerButtonStructure footerButtonPatterns] r
  show ?thesis by simp
qed

text \<open>
  Claim C9 as stated fails: for the analysis of the empty markup and a \<open>null\<close> catalog the
  mapper returns the empty list.
\<close>

theorem findMisticaEquivalents_null_catalog_empty_list:
  "findMisticaEquivalents emptyMarkupElements emptyMarkupStructure emptyMarkupPatterns None
     = Inr []"
  by code_simp

section \<open>Properties of the search engine\<close>

lemma startsWith_prefix: "startsWith s t \<longleftrightarrow> prefix t s"
  by (induction s t rule: startsWith.induct) auto

lemma endsWith_suffix: "endsWith s t \<longleftrightarrow> suffix t s"
  by (simp add: endsWith_def startsWith_prefix suffix_to_prefix)

lemma str_includes_sublist: "str_includes s t \<longleftrightarrow> sublist t s"
  by (induction s) (simp_all add: startsWith_prefix sublist_Cons_right)

lemma startsWith_refl: "startsWith s s"
  by (simp add: startsWith_prefix)

lemma str_includes_refl: "str_includes s s"
  by (simp add: str_includes_sublist)

lemma nameMatchScore_eq:
  "nameMatchScore nm term =
     (if nm = term then 90 else 0)
     + (if \<not> str_includes nm term then 0
        else if startsWith nm term then 80
        else if endsWith nm term then 70
        else 60)"
  by (simp add: nameMatchScore_def Let_def)

lemma mapE_Inr:
  "mapE f xs = Inr ys \<Longrightarrow> list_all2 (\<lambda>x y. f x = Inr y) xs ys"
proof (induction xs arbitrary: ys)
  case Nil
  then show ?case by simp
next
  case (Cons x xs)
  then show ?case by (auto split: sum.splits)
qed

lemma list_all2_set1: "list_all2 P xs ys \<Longrightarrow> x \<in> set xs \<Longrightarrow> \<exists>y \<in> set ys. P x y"
  by (induction rule: list_all2_induct) auto

lemma list_all2_set2: "list_all2 P xs ys \<Longrightarrow> y \<in> set ys \<Longrightarrow> \<exists>x \<in> set xs. P x y"
  by (induction rule: list_all2_induct) auto

lemma sorted_split:
  assumes "sorted (map k zs)" "zs = pre @ z # post"
  shows "(\<forall>x \<in> set pre. k x \<le> k z) \<and> (\<forall>y \<in> set post. k z \<le> k y)"
  using assms by (auto simp: sorted_append)


lemma scoredComponents_Inr:
  assumes "scoredComponents components nq = Inr scored"
  shows "\<exists>raw. list_all2 (\<lambda>c y. \<exists>sc. y = (c, sc) \<and>
              calculateRelevanceScore c nq (extractSearchTerms nq) (extractContextualKeywords nq)
                = Inr sc) components raw
           \<and> scored = sort_key (\<lambda>(c, sc). - sc) (filter (\<lambda>(c, sc). sc > 0) raw)"
proof -
  let ?f = "\<lambda>c. bindE (calculateRelevanceScore c nq (extractSearchTerms nq)
                       (extractContextualKeywords nq)) (\<lambda>sc. Inr (c, sc))"
  from assms obtain raw where m: "mapE ?f components = Inr raw"
    and s: "scored = sort_key (\<lambda>(c, sc). - sc) (filter (\<lambda>(c, sc). sc > 0) raw)"
    by (auto simp: scoredComponents_def Let_def bindE_def split: sum.splits)
  have "list_all2 (\<lambda>c y. ?f c = Inr y) components raw"
    using m by (rule mapE_Inr)
  then have "list_all2 (\<lambda>c y. \<exists>sc. y = (c, sc) \<and>
              calculateRelevanceScore c nq (extractSearchTerms nq) (extractContextualKeywords nq)
                = Inr sc) components raw"
    by (rule list_all2_mono) (auto simp: bindE_def split: sum.splits)
  with s show ?thesis by blast
qed


text \<open>
  Claim C7, as the code has it. For each search term the first loop adds 90 when the
  lowercased name equals the term and, independently of that, when the name contains the
  term it adds exactly one of 80 (the name starts with the term), 70 (it ends with the
  term) and 60 (the term stands elsewhere), the prefix checked before the suffix before the
  plain containment. So a term that equals the name adds 170, and a term that the name
  does not contain adds nothing.
\<close>

theorem nameMatchScore_bonuses:
  "nameMatchScore nm term =
     (if nm = term then 90 else 0)
     + (if \<not> str_includes nm term then 0
        else if startsWith nm term then 80
        else if endsWith nm term then 70
        else 60)
   \<and> (nm = term \<longrightarrow> nameMatchScore nm term = 170)
   \<and> (startsWith nm term \<or> endsWith nm term \<longrightarrow> str_includes nm term)"
proof (intro conjI impI)
  show "nameMatchScore nm term =
     (if nm = term then 90 else 0)
     + (if \<not> str_includes nm term then 0
        else if startsWith nm term then 80
        else if endsWith nm term then 70
        else 60)"
    by (rule nameMatchScore_eq)
next
  assume "nm = term"
  then show "nameMatchScore nm term = 170"
    by (simp add: nameMatchScore_eq str_includes_refl startsWith_refl)
next
  assume "startsWith nm term \<or> endsWith nm term"
  then show "str_includes nm term"
    by (auto simp: startsWith_prefix endsWith_suffix str_includes_sublist)
qed

theorem nameMatchScore_bonuses_witness:
  "nameMatchScore ''button'' ''button'' = 170
   \<and> startsWith ''buttonprimary'' ''button'' \<and> str_includes ''buttonprimary'' ''button''
   \<and> nameMatchScore ''buttonprimary'' ''button'' = 80"
proof -
  have s: "startsWith ''buttonprimary'' ''button''" by simp
  from nameMatchScore_bonuses [of "''button''" "''button''"]
       nameMatchScore_bonuses [of "''buttonprimary''" "''button''"] s
  show ?thesis by simp
qed

text \<open>
  Claim C7 as stated fails: for the query \<open>primary button\<close> and the component \<open>Button\<close> the
  term \<open>button\<close> equals the name and adds both 90 and 80; the score of the component is 220
  (170 for the name and 50 for an expansion of \<open>primary\<close>).
\<close>

theorem name_equal_term_adds_two_bonuses:
  "nameMatchScore (toLowerCase (name buttonComponent)) ''button'' = 90 + 80
   \<and> calculateRelevanceScore buttonComponent ''primary button''
        (extractSearchTerms ''primary button'') (extractContextualKeywords ''primary button'')
      = Inr 220"
  by code_simp

text \<open>
  Claim C1, as the code has it. For a query that is not blank, a component whose lowercased
  name equals the trimmed, lowercased query receives the score 100 from
  \<open>calculateRelevanceScore\<close>. When the search returns a list, the component is in it; every
  component ranked before it has a score of at least 100 and every component ranked after
  it a score of at most 100, each score being the one \<open>calculateRelevanceScore\<close> gives. The
  scores of other components are sums and may exceed 100.
\<close>

theorem exact_name_match_score_and_rank:
  assumes "trim query \<noteq> []"
    and "cmpt \<in> set components"
    and "toLowerCase (name cmpt) = trim (toLowerCase query)"
    and "smartSearchComponents components query = Inr res"
  shows "calculateRelevanceScore cmpt (trim (toLowerCase query))
           (extractSearchTerms (trim (toLowerCase query)))
           (extractContextualKeywords (trim (toLowerCase query))) = Inr 100
     \<and> (\<exists>scored pre post.
           scoredComponents components (trim (toLowerCase query)) = Inr scored
         \<and> res = map fst scored
         \<and> scored = pre @ (cmpt, 100) # post
         \<and> (\<forall>(d, sc) \<in> set pre. sc \<ge> 100)
         \<and> (\<forall>(d, sc) \<in> set post. sc \<le> 100)
         \<and> (\<forall>(d, sc) \<in> set scored. d \<in> set components
               \<and> calculateRelevanceScore d (trim (toLowerCase query))
                    (extractSearchTerms (trim (toLowerCase query)))
                    (extractContextualKeywords (trim (toLowerCase query))) = Inr sc))"
proof -
  let ?nq = "trim (toLowerCase query)"
  let ?calc = "\<lambda>c. calculateRelevanceScore c ?nq (extractSearchTerms ?nq)
                 (extractContextualKeywords ?nq)"
  have hundred: "?calc cmpt = Inr 100"
    using assms(3) by (simp add: calculateRelevanceScore_def Let_def)
  from assms(1,4) obtain scored where sc: "scoredComponents components ?nq = Inr scored"
    and res: "res = map fst scored"
    by (auto simp: smartSearchComponents_def Let_def bindE_def split: sum.splits)
  from scoredComponents_Inr [OF sc] obtain raw where
    raw: "list_all2 (\<lambda>c y. \<exists>s. y = (c, s) \<and> ?calc c = Inr s) components raw"
    and sorted: "scored = sort_key (\<lambda>(c, s). - s) (filter (\<lambda>(c, s). s > 0) raw)"
    by blast
  from list_all2_set1 [OF raw assms(2)] hundred have "(cmpt, 100) \<in> set raw"
    by auto
  then have "(cmpt, 100) \<in> set scored"
    by (simp add: sorted)
  then obtain pre post where split: "scored = pre @ (cmpt, 100) # post"
    by (auto simp: in_set_conv_decomp)
  have "sorted (map (\<lambda>(c, s). - s) scored)"
    by (simp add: sorted)
  from sorted_split [OF this split]
  have before: "\<forall>x \<in> set pre. (case x of (c, s) \<Rightarrow> - s) \<le> - 100"
    and after: "\<forall>y \<in> set post. - 100 \<le> (case y of (c, s) \<Rightarrow> - s)"
    by simp_all
  have pre: "\<forall>(d, s) \<in> set pre. s \<ge> 100"
    using before by auto
  have post: "\<forall>(d, s) \<in> set post. s \<le> 100"
    using after by auto
  have all: "\<forall>(d, s) \<in> set scored. d \<in> set components \<and> ?calc d = Inr s"
  proof (clarify)
    fix d s assume "(d, s) \<in> set scored"
    then have "(d, s) \<in> set raw" by (simp add: sorted)
    from list_all2_set2 [OF raw this] show "d \<in> set components \<and> ?calc d = Inr s"
      by auto
  qed
  from hundred sc res split pre post all show ?thesis by blast
qed

theorem exact_name_match_score_and_rank_witness:
  "trim ''Button'' \<noteq> []
   \<and> buttonComponent \<in> set [buttonComponent, buttonPrimary]
   \<and> toLowerCase (name buttonComponent) = trim (toLowerCase ''Button'')
   \<and> smartSearchComponents [buttonComponent, buttonPrimary] ''Button''
       = Inr [buttonPrimary, buttonComponent]
   \<and> calculateRelevanceScore buttonComponent (trim (toLowerCase ''Button''))
           (extractSearchTerms (trim (toLowerCase ''Button'')))
           (extractContextualKeywords (trim (toLowerCase ''Button''))) = Inr 100"
proof -
  have 1: "trim ''Button'' \<noteq> []" by code_simp
  have 2: "buttonComponent \<in> set [buttonComponent, buttonPrimary]" by simp
  have 3: "toLowerCase (name buttonComponent) = trim (toLowerCase ''Button'')" by code_simp
  have 4: "smartSearchComponents [buttonComponent, buttonPrimary] ''Button''
       = Inr [buttonPrimary, buttonComponent]" by code_simp
  from exact_name_match_score_and_rank [OF 1 2 3 4] 1 2 3 4 show ?thesis by blast
qed

text \<open>
  Claim C1 as stated fails: for the query \<open>button\<close> and the catalog that holds \<open>Button\<close> and
  then \<open>ButtonPrimary\<close>, the component \<open>ButtonPrimary\<close> has the score 160 (80 for the prefix,
  50 and 30 for the expansion \<open>primary\<close> in its name and its description), the exact match
  \<open>Button\<close> has 100, and \<open>ButtonPrimary\<close> is ranked first.
\<close>

theorem exact_name_match_not_first:
  "scoredComponents [buttonComponent, buttonPrimary] ''button''
     = Inr [(buttonPrimary, 160), (buttonComponent, 100)]
   \<and> smartSearchComponents [buttonComponent, buttonPrimary] ''button''
     = Inr [buttonPrimary, buttonComponent]"
  by code_simp

section \<open>Properties of the skin-vars analyzer\<close>

lemma normalizedSkinColorEntries_eq:
  "normalizedSkinColorEntries =
    [(''text'', ''primary'', ''#000000''), (''text'', ''primary'', ''#1a1a1a''),
     (''text'', ''primary'', ''#333333''), (''text'', ''primary'', ''#0b2739''),
     (''text'', ''primary'', ''#000000''), (''text'', ''primary'', ''black''),
     (''text'', ''secondary'', ''#666666''), (''text'', ''secondary'', ''#777777''),
     (''text'', ''secondary'', ''#999999''), (''text'', ''secondary'', ''#6b6c6f''),
     (''text'', ''secondary'', ''#666666''), (''text'', ''tertiary'', ''#999999''),
     (''text'', ''tertiary'', ''#aaaaaa''), (''text'', ''tertiary'', ''#bbbbbb''),
     (''text'', ''tertiary'', ''#999999''), (''text'', ''inverse'', ''#ffffff''),
     (''text'', ''inverse'', ''#ffffff''), (''text'', ''inverse'', ''white''),
     (''text'', ''inverse'', ''#ffffff''), (''text'', ''brand'', ''#0066cc''),
     (''text'', ''brand'', ''#007acc''), (''text'', ''brand'', ''#0080ff''),
     (''text'', ''brand'', ''#0066cc''), (''text'', ''success'', ''#00aa44''),
     (''text'', ''success'', ''#00cc55''), (''text'', ''success'', ''#22cc66''),
     (''text'', ''success'', ''#00aa44''), (''text'', ''warning'', ''#ff9900''),
     (''text'', ''warning'', ''#ffaa00''), (''text'', ''warning'', ''#ffbb33''),
     (''text'', ''warning'', ''#ff9900''), (''text'', ''error'', ''#cc0000''),
     (''text'', ''error'', ''#dd1122''), (''text'', ''error'', ''#ff3344''),
     (''text'', ''error'', ''#cc0000''), (''background'', ''canvas'', ''#ffffff''),
     (''background'', ''canvas'', ''#ffffff''), (''background'', ''canvas'', ''white''),
     (''background'', ''canvas'', ''#ffffff''),
     (''background'', ''canvasAlternative'', ''#f5f5f5''),
     (''background'', ''canvasAlternative'', ''#f0f0f0''),
     (''background'', ''canvasAlternative'', ''#eeeeee''),
     (''background'', ''canvasAlternative'', ''#f5f5f5''),
     (''background'', ''container'', ''#ffffff''),
     (''background'', ''container'', ''#ffffff''), (''background'', ''container'', ''white''),
     (''background'', ''container'', ''#ffffff''),
     (''background'', ''containerAlternative'', ''#fafafa''),
     (''background'', ''containerAlternative'', ''#f8f8f8''),
     (''background'', ''containerAlternative'', ''#fafafa''),
     (''background'', ''brand'', ''#0066cc''), (''background'', ''brand'', ''#007acc''),
     (''background'', ''brand'', ''#0066cc''),
     (''background'', ''brandSecondary'', ''#e6f2ff''),
     (''background'', ''brandSecondary'', ''#f0f8ff''),
     (''background'', ''brandSecondary'', ''#e6f2ff''),
     (''border'', ''primary'', ''#dddddd''), (''border'', ''primary'', ''#d0d0d0''),
     (''border'', ''primary'', ''#cccccc''), (''border'', ''primary'', ''#dddddd''),
     (''border'', ''secondary'', ''#eeeeee''), (''border'', ''secondary'', ''#e8e8e8''),
     (''border'', ''secondary'', ''#eeeeee''), (''border'', ''brand'', ''#0066cc''),
     (''border'', ''brand'', ''#007acc''), (''border'', ''brand'', ''#0066cc''),
     (''border'', ''selected'', ''#0066cc''), (''border'', ''selected'', ''#007acc''),
     (''border'', ''selected'', ''#0066cc''),
     (''control'', ''activatedBackground'', ''#0066cc''),
     (''control'', ''activatedBackground'', ''#007acc''),
     (''control'', ''activatedBackground'', ''#0066cc''),
     (''control'', ''deactivatedBackground'', ''#f5f5f5''),
     (''control'', ''deactivatedBackground'', ''#f0f0f0''),
     (''control'', ''deactivatedBackground'', ''#f5f5f5''),
     (''control'', ''activatedText'', ''#ffffff''),
     (''control'', ''activatedText'', ''#ffffff''),
     (''control'', ''activatedText'', ''white''),
     (''control'', ''activatedText'', ''#ffffff''),
     (''control'', ''deactivatedText'', ''#999999''),
     (''control'', ''deactivatedText'', ''#aaaaaa''),
     (''control'', ''deactivatedText'', ''#999999'')]"
  by code_simp

lemma findBestSkinVarMatch_steps:
  "findBestSkinVarMatch color property element =
     fst (foldl (skinVarStep (normalizeColor color) (determineColorContext property element))
            (None, 0) normalizedSkinColorEntries)"
proof -
  have "\<And>nc ctx st es.
      foldl (\<lambda>(bestMatch, highestConfidence) (cat, subcat, skinColor).
                (let normalizedSkinColor = normalizeColor skinColor
                 in if colorsMatch nc normalizedSkinColor then
                      (let c = calculateColorConfidence nc normalizedSkinColor ctx cat
                       in if c > highestConfidence
                          then (Some \<lparr>varName = ''skinVars.colors.'' @ subcat, category = cat,
                                      confidence = c\<rparr>, c)
                          else (bestMatch, highestConfidence))
                    else (bestMatch, highestConfidence))) st es
      = foldl (skinVarStep nc ctx) st
          (map (\<lambda>(cat, subcat, skinColor). (cat, subcat, normalizeColor skinColor)) es)"
  proof -
    fix nc ctx st es
    show "foldl (\<lambda>(bestMatch, highestConfidence) (cat, subcat, skinColor).
                (let normalizedSkinColor = normalizeColor skinColor
                 in if colorsMatch nc normalizedSkinColor then
                      (let c = calculateColorConfidence nc normalizedSkinColor ctx cat
                       in if c > highestConfidence
                          then (Some \<lparr>varName = ''skinVars.colors.'' @ subcat, category = cat,
                                      confidence = c\<rparr>, c)
                          else (bestMatch, highestConfidence))
                    else (bestMatch, highestConfidence))) st es
      = foldl (skinVarStep nc ctx) st
          (map (\<lambda>(cat, subcat, skinColor). (cat, subcat, normalizeColor skinColor)) es)"
      by (induction es arbitrary: st) (auto simp: skinVarStep_def Let_def split: prod.splits)
  qed
  then show ?thesis
    by (simp add: findBestSkinVarMatch_def normalizedSkinColorEntries_def Let_def)
qed

lemma calculateColorConfidence_same:
  "calculateColorConfidence c c ctx cat = (if ctx = cat then 1 else 0.8)"
  by (simp add: calculateColorConfidence_def Let_def)

lemma skinVarStep_invariant:
  assumes "case st of (best, high) \<Rightarrow>
             (best = None \<and> high = 0)
             \<or> (\<exists>m. best = Some m \<and> SkinVarMatch.confidence m = high \<and> (high = 0.8 \<or> high = 1))"
  shows "case foldl (skinVarStep nc ctx) st es of (best, high) \<Rightarrow>
             (best = None \<and> high = 0)
             \<or> (\<exists>m. best = Some m \<and> SkinVarMatch.confidence m = high \<and> (high = 0.8 \<or> high = 1))"
  using assms
proof (induction es arbitrary: st)
  case Nil
  then show ?case by simp
next
  case (Cons e es)
  show ?case
    unfolding foldl_Cons
  proof (rule Cons.IH)
    obtain best high where st: "st = (best, high)" by (cases st)
    obtain cat subcat nsc where e: "e = (cat, subcat, nsc)" by (cases e)
    from Cons.prems show "case skinVarStep nc ctx st e of (best, high) \<Rightarrow>
             (best = None \<and> high = 0)
             \<or> (\<exists>m. best = Some m \<and> SkinVarMatch.confidence m = high \<and> (high = 0.8 \<or> high = 1))"
      unfolding st e
      by (simp add: skinVarStep_def colorsMatch_def calculateColorConfidence_same Let_def)
  qed
qed

lemma findBestSkinVarMatch_confidence:
  assumes "findBestSkinVarMatch color property element = Some m"
  shows "SkinVarMatch.confidence m = 0.8 \<or> SkinVarMatch.confidence m = 1"
proof -
  have "case foldl (skinVarStep (normalizeColor color) (determineColorContext property element))
               (None, 0) normalizedSkinColorEntries of (best, high) \<Rightarrow>
             (best = None \<and> high = 0)
             \<or> (\<exists>m. best = Some m \<and> SkinVarMatch.confidence m = high \<and> (high = 0.8 \<or> high = 1))"
    by (rule skinVarStep_invariant) simp
  with assms show ?thesis
    unfolding findBestSkinVarMatch_steps by (auto split: prod.splits)
qed

text \<open>
  Claim C6 at the literal \<open>#FFF\<close> of a text colour. No entry of the table is \<open>#FFF\<close>, so by
  the claim the confidence is 0.7 + 0.2 = 0.9. The bonus of 0.1 compares the two normalized
  colours, which are equal whenever the confidence is computed: the code adds it and
  returns the confidence 1. (Every match has the confidence 0.8 or 1:
  \<open>findBestSkinVarMatch_confidence\<close>.)
\<close>

theorem findBestSkinVarMatch_bonus_without_identical_literal:
  "''#FFF'' \<notin> set (map (\<lambda>(cat, subcat, skinColor). skinColor) skinColorEntries)
   \<and> determineColorContext ''color'' ''span'' = ''text''
   \<and> findBestSkinVarMatch ''#FFF'' ''color'' ''span''
       = Some \<lparr>varName = ''skinVars.colors.inverse'', category = ''text'', confidence = 1\<rparr>"
proof -
  have n: "normalizeColor ''#FFF'' = ''#ffffff''" by code_simp
  have c: "determineColorContext ''color'' ''span'' = ''text''" by code_simp
  have t: "''#FFF'' \<notin> set (map (\<lambda>(cat, subcat, skinColor). skinColor) skinColorEntries)"
    by code_simp
  have f: "findBestSkinVarMatch ''#FFF'' ''color'' ''span''
       = Some \<lparr>varName = ''skinVars.colors.inverse'', category = ''text'', confidence = 1\<rparr>"
    unfolding findBestSkinVarMatch_steps n c normalizedSkinColorEntries_eq
    by (simp add: skinVarStep_def colorsMatch_def calculateColorConfidence_def)
  from t c f show ?thesis by (intro conjI)
qed

section \<open>Element extractor\<close>

subsection \<open>Expressions: a test that fails leaves no match\<close>

lemma matchAt_Some_rxm:
  "matchAt r p s = Some x \<Longrightarrow> rxm r \<lparr>msPrev = p, msRest = s, msCaps = []\<rparr> \<noteq> []"
  by (auto simp: matchAt_def split: list.splits)

lemma testFrom_here:
  "rxm r \<lparr>msPrev = p, msRest = s, msCaps = []\<rparr> \<noteq> [] \<Longrightarrow> testFrom r p s"
  by (cases s) simp_all

lemma testFrom_later: "testFrom r (Some c) cs \<Longrightarrow> testFrom r p (c # cs)"
  by simp

lemma execFrom_testFrom: "execFrom r p s \<noteq> [] \<Longrightarrow> testFrom r p s"
proof (induction s arbitrary: p)
  case Nil
  then have "matchAt r p [] \<noteq> None"
    by (subst (asm) execFrom.simps) (auto split: option.splits)
  then obtain x where "matchAt r p [] = Some x" by blast
  then show ?case by (intro testFrom_here matchAt_Some_rxm)
next
  case (Cons c cs)
  show ?case
  proof (cases "matchAt r p (c # cs)")
    case (Some x)
    then show ?thesis by (intro testFrom_here matchAt_Some_rxm)
  next
    case None
    with Cons.prems have "execFrom r (Some c) cs \<noteq> []"
      by (subst (asm) execFrom.simps) simp
    then have "testFrom r (Some c) cs" by (rule Cons.IH)
    then show ?thesis by simp
  qed
qed

lemma matchCount_rxTest: "matchCount r s > 0 \<Longrightarrow> rxTest r s"
  by (simp add: matchCount_def execAll_def rxTest_def execFrom_testFrom)

lemma rxm_Alts: "rs \<noteq> [] \<Longrightarrow> rxm (Alts rs) st = concat (map (\<lambda>r. rxm r st) rs)"
  by (induction rs rule: Alts.induct) simp_all

lemma rxm_Alts_nonempty:
  "rs \<noteq> [] \<Longrightarrow> rxm (Alts rs) st \<noteq> [] \<longleftrightarrow> (\<exists>r \<in> set rs. rxm r st \<noteq> [])"
  by (simp add: rxm_Alts)

lemma testFrom_Alts:
  "rs \<noteq> [] \<Longrightarrow> testFrom (Alts rs) p s \<longleftrightarrow> (\<exists>r \<in> set rs. testFrom r p s)"
  by (induction s arbitrary: p) (auto simp: rxm_Alts_nonempty)

lemma rxTest_Alts_mono:
  assumes "rxTest (Alts rs) s" "rs \<noteq> []" "set rs \<subseteq> set rs'"
  shows "rxTest (Alts rs') s"
proof -
  from assms(3,2) have ne: "rs' \<noteq> []" by auto
  from assms show ?thesis
    unfolding rxTest_def testFrom_Alts [OF assms(2)] testFrom_Alts [OF ne] by blast
qed

lemma rxm_Seq_nonempty: "rxm (Seq a b) st \<noteq> [] \<Longrightarrow> rxm a st \<noteq> []"
  by auto

lemma testFrom_Seq: "testFrom (Seq a b) p s \<Longrightarrow> testFrom a p s"
  by (induction s arbitrary: p) (auto simp del: rxm.simps dest: rxm_Seq_nonempty)

lemma rxTest_Seqs: "rxTest (Seqs (a # rs)) s \<Longrightarrow> rxTest a s"
  by (simp add: rxTest_def Seqs_def testFrom_Seq)

lemma execAll_rxTest: "execAll r s \<noteq> [] \<Longrightarrow> rxTest r s"
  by (simp add: execAll_def rxTest_def execFrom_testFrom)

subsection \<open>Families that are not found\<close>

lemma detectButtonPositions_nonempty: "detectButtonPositions code \<noteq> []"
  by (simp add: detectButtonPositions_def Let_def)

lemma forms_not_found:
  "\<not> FormElements.found (extractForms code) \<Longrightarrow>
   fieldTypes (extractForms code) = [] \<and> \<not> hasSubmitButton (extractForms code)
   \<and> FormElements.structure' (extractForms code) = ''simple''"
  by (simp add: extractForms_def Let_def split: if_splits)

lemma feedback_not_found:
  "\<not> FeedbackElements.found (extractFeedback code) \<Longrightarrow>
   detectedNames (extractFeedback code) = []"
  by (simp add: extractFeedback_def Let_def)

lemma feedback_type:
  "FeedbackElements.type (extractFeedback code)
     \<in> set [''error'', ''success'', ''info'', ''warning'', ''generic'']"
  by (simp add: extractFeedback_def Let_def)

lemma layouts_not_found:
  "\<not> LayoutElements.found (extractLayouts code) \<Longrightarrow>
   LayoutElements.layoutType (extractLayouts code) = ''standard''"
  by (simp add: extractLayouts_def Let_def)

lemma security_not_found:
  "\<not> SecurityElements.found (extractSecurity code) \<Longrightarrow>
   securityLevel (extractSecurity code) = ''none''"
  by (simp add: extractSecurity_def Let_def)

lemma figmaComponents_not_found:
  "\<not> FigmaComponentElements.found (extractFigmaComponents code) \<Longrightarrow>
   detectedComponents (extractFigmaComponents code) = []"
  by (simp add: extractFigmaComponents_def Let_def)


lemma containers_not_found:
  "\<not> ContainerElements.found (extractContainers code) \<Longrightarrow>
   ContainerElements.count (extractContainers code) = 0"
proof (rule ccontr)
  assume nf: "\<not> ContainerElements.found (extractContainers code)"
  assume "ContainerElements.count (extractContainers code) \<noteq> 0"
  then have "rxTest (Alts (map Str [''div'', ''View'', ''Container'', ''Box'', ''Stack''])) code"
    by (simp add: extractContainers_def Words_def matchCount_rxTest)
  then have "rxTest (Alts (map Str [''div'', ''View'', ''Container'', ''Box'', ''Stack'', ''Grid''])) code"
    by (rule rxTest_Alts_mono) auto
  with nf show False
    by (simp add: extractContainers_def Words_def)
qed

lemma icons_not_found:
  "\<not> IconElements.found (extractIcons code) \<Longrightarrow> IconElements.count (extractIcons code) = 0"
proof (rule ccontr)
  assume nf: "\<not> IconElements.found (extractIcons code)"
  assume "IconElements.count (extractIcons code) \<noteq> 0"
  then have "rxTest (Alts [Str ''icon'', Str ''Icon'']) code"
    by (simp add: extractIcons_def Words_def matchCount_rxTest)
  then have "rxTest (Alts [Str ''icon'', Str ''Icon'',
        Seqs [Str ''Image'', LazyStar Dot, Str ''.'', Group 1 (Words [''svg'', ''png''])],
        Str ''/>'']) code"
    by (rule rxTest_Alts_mono) auto
  with nf show False
    by (simp add: extractIcons_def)
qed

lemma inputs_not_found:
  "\<not> InputElements.found (extractInputs code) \<Longrightarrow> InputElements.count (extractInputs code) = 0"
proof (rule ccontr)
  assume nf: "\<not> InputElements.found (extractInputs code)"
  assume "InputElements.count (extractInputs code) \<noteq> 0"
  then have "rxTest (Alts (map Str [''input'', ''Input'', ''Field''])) code"
    by (simp add: extractInputs_def Words_def matchCount_rxTest)
  then have "rxTest (Alts (map Str [''input'', ''Input'', ''Field'', ''TextInput''])) code"
    by (rule rxTest_Alts_mono) auto
  with nf show False
    by (simp add: extractInputs_def Words_def)
qed

lemma images_not_found:
  "\<not> ImageElements.found (extractImages code) \<Longrightarrow> ImageElements.count (extractImages code) = 0"
proof (rule ccontr)
  assume nf: "\<not> ImageElements.found (extractImages code)"
  assume "ImageElements.count (extractImages code) \<noteq> 0"
  then have "rxTest (Alts (map Str [''img'', ''Image''])) code"
    by (simp add: extractImages_def Words_def matchCount_rxTest)
  then have "rxTest (Alts (map Str [''img'', ''Image'', ''picture'', ''src=''])) code"
    by (rule rxTest_Alts_mono) auto
  with nf show False
    by (simp add: extractImages_def Words_def)
qed

lemma semanticMatchesOf_Nil:
  "\<not> rxTest a code \<Longrightarrow> semanticMatchesOf (Seqs (a # rs)) code = []"
proof -
  assume n: "\<not> rxTest a code"
  have "execAll (Seqs (a # rs)) code = []"
  proof (rule ccontr)
    assume "execAll (Seqs (a # rs)) code \<noteq> []"
    then have "rxTest (Seqs (a # rs)) code" by (rule execAll_rxTest)
    then have "rxTest a code" by (rule rxTest_Seqs)
    with n show False by simp
  qed
  then show ?thesis by (simp add: semanticMatchesOf_def)
qed

lemma spacing_not_found:
  assumes "\<not> SpacingElements.found (extractSpacing code)"
  shows "spacingTypes (extractSpacing code) = [] \<and> spacingValues (extractSpacing code) = []
     \<and> detectedUnits (extractSpacing code) = [] \<and> semanticSpacing (extractSpacing code) = []
     \<and> spacingPatterns (extractSpacing code) = [''design-system'']"
proof -
  from assms have t: "\<not> rxTest (Str ''padding'') code" "\<not> rxTest (Str ''margin'') code"
      "\<not> rxTest (Str ''gap'') code" "\<not> rxTest (Str ''space'') code"
    by (simp_all add: extractSpacing_def Let_def split: if_splits)
  have s: "\<And>rs. semanticMatchesOf (Seqs (Str ''padding'' # rs)) code = []"
      "\<And>rs. semanticMatchesOf (Seqs (Str ''margin'' # rs)) code = []"
      "\<And>rs. semanticMatchesOf (Seqs (Str ''gap'' # rs)) code = []"
      "\<And>rs. semanticMatchesOf (Seqs (Str ''space'' # rs)) code = []"
    using t by (simp_all add: semanticMatchesOf_Nil)
  from assms show ?thesis
    by (simp add: extractSpacing_def Let_def s split: if_splits)
qed

lemma extractUIElements_empty: "extractUIElements '''' = emptyMarkupElements"
  by code_simp

lemma extractButtons_button:
  "extractButtons ''button''
     = \<lparr>ButtonElements.found = False, count = 1, hasActions = False, variants = [],
        positions = [''inline'']\<rparr>"
  by code_simp

lemma extractFeedback_error:
  "extractFeedback ''error''
     = \<lparr>FeedbackElements.found = False, type = ''error'', hasScreen = False,
        hasIcon = False, hasActions = False, detectedNames = []\<rparr>"
  by code_simp

text \<open>
  Claim C8, amended. For every markup, a family that is not found has these fields at
  their defaults: containers, icons, inputs and images count 0; forms have no field type,
  no submit button and the structure \<open>simple\<close>; feedback has no detected name; layouts
  have the layout type \<open>standard\<close>; security has the level \<open>none\<close>; no Figma component is
  detected; spacing has no type, value, unit or semantic name, and the one pattern
  \<open>design-system\<close>. The positions of the buttons are never empty, and the type of the
  feedback is always one of five words, whatever \<open>found\<close> is.
\<close>

theorem not_found_families_default_fields:
  "ButtonElements.positions (UIElements.buttons (extractUIElements code)) \<noteq> []
   \<and> FeedbackElements.type (UIElements.feedback (extractUIElements code))
        \<in> set [''error'', ''success'', ''info'', ''warning'', ''generic'']
   \<and> (\<not> ContainerElements.found (UIElements.containers (extractUIElements code)) \<longrightarrow>
        ContainerElements.count (UIElements.containers (extractUIElements code)) = 0)
   \<and> (\<not> IconElements.found (UIElements.icons (extractUIElements code)) \<longrightarrow>
        IconElements.count (UIElements.icons (extractUIElements code)) = 0)
   \<and> (\<not> InputElements.found (UIElements.inputs (extractUIElements code)) \<longrightarrow>
        InputElements.count (UIElements.inputs (extractUIElements code)) = 0)
   \<and> (\<not> ImageElements.found (UIElements.images (extractUIElements code)) \<longrightarrow>
        ImageElements.count (UIElements.images (extractUIElements code)) = 0)
   \<and> (\<not> FormElements.found (UIElements.forms (extractUIElements code)) \<longrightarrow>
        fieldTypes (UIElements.forms (extractUIElements code)) = []
        \<and> \<not> hasSubmitButton (UIElements.forms (extractUIElements code))
        \<and> FormElements.structure' (UIElements.forms (extractUIElements code)) = ''simple'')
   \<and> (\<not> FeedbackElements.found (UIElements.feedback (extractUIElements code)) \<longrightarrow>
        detectedNames (UIElements.feedback (extractUIElements code)) = [])
   \<and> (\<not> LayoutElements.found (UIElements.layouts (extractUIElements code)) \<longrightarrow>
        LayoutElements.layoutType (UIElements.layouts (extractUIElements code)) = ''standard'')
   \<and> (\<not> SecurityElements.found (UIElements.security (extractUIElements code)) \<longrightarrow>
        securityLevel (UIElements.security (extractUIElements code)) = ''none'')
   \<and> (\<not> FigmaComponentElements.found (UIElements.figmaComponents (extractUIElements code)) \<longrightarrow>
        detectedComponents (UIElements.figmaComponents (extractUIElements code)) = [])
   \<and> (\<not> SpacingElements.found (UIElements.spacing (extractUIElements code)) \<longrightarrow>
        spacingTypes (UIElements.spacing (extractUIElements code)) = []
        \<and> spacingValues (UIElements.spacing (extractUIElements code)) = []
        \<and> detectedUnits (UIElements.spacing (extractUIElements code)) = []
        \<and> semanticSpacing (UIElements.spacing (extractUIElements code)) = []
        \<and> spacingPatterns (UIElements.spacing (extractUIElements code)) = [''design-system''])"
proof -
  have b: "ButtonElements.positions (UIElements.buttons (extractUIElements code)) \<noteq> []"
    by (simp add: extractUIElements_def extractButtons_def detectButtonPositions_nonempty)
  have f: "FeedbackElements.type (UIElements.feedback (extractUIElements code))
        \<in> set [''error'', ''success'', ''info'', ''warning'', ''generic'']"
    unfolding extractUIElements_def UIElements.select_convs by (rule feedback_type)
  have c: "\<not> ContainerElements.found (UIElements.containers (extractUIElements code)) \<Longrightarrow>
        ContainerElements.count (UIElements.containers (extractUIElements code)) = 0"
    unfolding extractUIElements_def UIElements.select_convs by (rule containers_not_found)
  have i: "\<not> IconElements.found (UIElements.icons (extractUIElements code)) \<Longrightarrow>
        IconElements.count (UIElements.icons (extractUIElements code)) = 0"
    unfolding extractUIElements_def UIElements.select_convs by (rule icons_not_found)
  have n: "\<not> InputElements.found (UIElements.inputs (extractUIElements code)) \<Longrightarrow>
        InputElements.count (UIElements.inputs (extractUIElements code)) = 0"
    unfolding extractUIElements_def UIElements.select_convs by (rule inputs_not_found)
  have g: "\<not> ImageElements.found (UIElements.images (extractUIElements code)) \<Longrightarrow>
        ImageElements.count (UIElements.images (extractUIElements code)) = 0"
    unfolding extractUIElements_def UIElements.select_convs by (rule images_not_found)
  have o: "\<not> FormElements.found (UIElements.forms (extractUIElements code)) \<Longrightarrow>
        fieldTypes (UIElements.forms (extractUIElements code)) = []
        \<and> \<not> hasSubmitButton (UIElements.forms (extractUIElements code))
        \<and> FormElements.structure' (UIElements.forms (extractUIElements code)) = ''simple''"
    unfolding extractUIElements_def UIElements.select_convs by (rule forms_not_found)
  have d: "\<not> FeedbackElements.found (UIElements.feedback (extractUIElements code)) \<Longrightarrow>
        detectedNames (UIElements.feedback (extractUIElements code)) = []"
    unfolding extractUIElements_def UIElements.select_convs by (rule feedback_not_found)
  have l: "\<not> LayoutElements.found (UIElements.layouts (extractUIElements code)) \<Longrightarrow>
        LayoutElements.layoutType (UIElements.layouts (extractUIElements code)) = ''standard''"
    unfolding extractUIElements_def UIElements.select_convs by (rule layouts_not_found)
  have s: "\<not> SecurityElements.found (UIElements.security (extractUIElements code)) \<Longrightarrow>
        securityLevel (UIElements.security (extractUIElements code)) = ''none''"
    unfolding extractUIElements_def UIElements.select_convs by (rule security_not_found)
  have m: "\<not> FigmaComponentElements.found (UIElements.figmaComponents (extractUIElements code))
        \<Longrightarrow> detectedComponents (UIElements.figmaComponents (extractUIElements code)) = []"
    unfolding extractUIElements_def UIElements.select_convs by (rule figmaComponents_not_found)
  have p: "\<not> SpacingElements.found (UIElements.spacing (extractUIElements code)) \<Longrightarrow>
        spacingTypes (UIElements.spacing (extractUIElements code)) = []
        \<and> spacingValues (UIElements.spacing (extractUIElements code)) = []
        \<and> detectedUnits (UIElements.spacing (extractUIElements code)) = []
        \<and> semanticSpacing (UIElements.spacing (extractUIElements code)) = []
        \<and> spacingPatterns (UIElements.spacing (extractUIElements code)) = [''design-system'']"
    unfolding extractUIElements_def UIElements.select_convs by (rule spacing_not_found)
  from b f c i n g o d l s m p show ?thesis by blast
qed

theorem not_found_families_default_fields_witness:
  "\<not> ContainerElements.found (UIElements.containers (extractUIElements ''''))
   \<and> ContainerElements.count (UIElements.containers (extractUIElements '''')) = 0
   \<and> \<not> IconElements.found (UIElements.icons (extractUIElements ''''))
   \<and> IconElements.count (UIElements.icons (extractUIElements '''')) = 0
   \<and> \<not> InputElements.found (UIElements.inputs (extractUIElements ''''))
   \<and> InputElements.count (UIElements.inputs (extractUIElements '''')) = 0
   \<and> \<not> ImageElements.found (UIElements.images (extractUIElements ''''))
   \<and> ImageElements.count (UIElements.images (extractUIElements '''')) = 0
   \<and> \<not> FormElements.found (UIElements.forms (extractUIElements ''''))
   \<and> fieldTypes (UIElements.forms (extractUIElements '''')) = []
   \<and> \<not> FeedbackElements.found (UIElements.feedback (extractUIElements ''''))
   \<and> detectedNames (UIElements.feedback (extractUIElements '''')) = []
   \<and> \<not> LayoutElements.found (UIElements.layouts (extractUIElements ''''))
   \<and> LayoutElements.layoutType (UIElements.layouts (extractUIElements '''')) = ''standard''
   \<and> \<not> SecurityElements.found (UIElements.security (extractUIElements ''''))
   \<and> securityLevel (UIElements.security (extractUIElements '''')) = ''none''
   \<and> \<not> FigmaComponentElements.found (UIElements.figmaComponents (extractUIElements ''''))
   \<and> detectedComponents (UIElements.figmaComponents (extractUIElements '''')) = []
   \<and> \<not> SpacingElements.found (UIElements.spacing (extractUIElements ''''))
   \<and> spacingPatterns (UIElements.spacing (extractUIElements '''')) = [''design-system'']"
proof -
  have nf:
    "\<not> ContainerElements.found (UIElements.containers (extractUIElements ''''))"
    "\<not> IconElements.found (UIElements.icons (extractUIElements ''''))"
    "\<not> InputElements.found (UIElements.inputs (extractUIElements ''''))"
    "\<not> ImageElements.found (UIElements.images (extractUIElements ''''))"
    "\<not> FormElements.found (UIElements.forms (extractUIElements ''''))"
    "\<not> FeedbackElements.found (UIElements.feedback (extractUIElements ''''))"
    "\<not> LayoutElements.found (UIElements.layouts (extractUIElements ''''))"
    "\<not> SecurityElements.found (UIElements.security (extractUIElements ''''))"
    "\<not> FigmaComponentElements.found (UIElements.figmaComponents (extractUIElements ''''))"
    "\<not> SpacingElements.found (UIElements.spacing (extractUIElements ''''))"
    by (simp_all add: extractUIElements_empty emptyMarkupElements_def)
  from not_found_families_default_fields [of "''''"] nf show ?thesis by blast
qed

text \<open>
  Claim C8 as stated fails. For the empty markup no family is found, and the positions of
  the buttons are \<open>inline\<close>, the structure of the forms is \<open>simple\<close>, the type of the feedback
  is \<open>generic\<close>, the layout type is \<open>standard\<close>, the security level is \<open>none\<close>. For the markup
  \<open>button\<close> the buttons are not found and their count is 1; for the markup \<open>error\<close> the
  feedback is not found and its type is \<open>error\<close>.
\<close>

theorem not_found_families_populated_fields:
  "\<not> ButtonElements.found (UIElements.buttons (extractUIElements ''''))
   \<and> ButtonElements.positions (UIElements.buttons (extractUIElements '''')) = [''inline'']
   \<and> \<not> FormElements.found (UIElements.forms (extractUIElements ''''))
   \<and> FormElements.structure' (UIElements.forms (extractUIElements '''')) = ''simple''
   \<and> \<not> FeedbackElements.found (UIElements.feedback (extractUIElements ''''))
   \<and> FeedbackElements.type (UIElements.feedback (extractUIElements '''')) = ''generic''
   \<and> \<not> LayoutElements.found (UIElements.layouts (extractUIElements ''''))
   \<and> LayoutElements.layoutType (UIElements.layouts (extractUIElements '''')) = ''standard''
   \<and> \<not> SecurityElements.found (UIElements.security (extractUIElements ''''))
   \<and> securityLevel (UIElements.security (extractUIElements '''')) = ''none''
   \<and> \<not> ButtonElements.found (UIElements.buttons (extractUIElements ''button''))
   \<and> ButtonElements.count (UIElements.buttons (extractUIElements ''button'')) = 1
   \<and> \<not> FeedbackElements.found (UIElements.feedback (extractUIElements ''error''))
   \<and> FeedbackElements.type (UIElements.feedback (extractUIElements ''error'')) = ''error''"
proof -
  have "UIElements.buttons (extractUIElements ''button'') = extractButtons ''button''"
    and "UIElements.feedback (extractUIElements ''error'') = extractFeedback ''error''"
    by (simp_all add: extractUIElements_def)
  then show ?thesis
    by (simp add: extractUIElements_empty emptyMarkupElements_def extractButtons_button
        extractFeedback_error)
qed

subsection \<open>Consolidation of the text presets\<close>



lemma map_fst_mapSet:
  "map fst (mapSet k v m) = (if k \<in> set (map fst m) then map fst m else map fst m @ [k])"
proof (induction m)
  case Nil
  show ?case by simp
next
  case (Cons a m)
  obtain k' v' where a: "a = (k', v')" by (cases a)
  show ?case
  proof (cases "k' = k")
    case True
    then show ?thesis by (simp add: a)
  next
    case False
    with Cons show ?thesis by (simp add: a)
  qed
qed

lemma fst_set_mapSet: "set (map fst (mapSet k v m)) = insert k (set (map fst m))"
  by (simp add: map_fst_mapSet insert_absorb)

















end
